theory Spec2Isabelle
  imports Main "HOL-Library.Word"
begin

section \<open>The RPC frontend (src/node/rpc/frontend.h)\<close>

text \<open>
  A shallow embedding of class \<open>RpcFrontend\<close>. The frontend is written against
  collaborators whose code is not part of the file (the endpoint registry, the KV
  store and its transaction, consensus, the history, the forwarder, the crypto
  primitives). Every collaborator is a parameter: the record \<open>env\<close> gives, for each
  method the frontend calls, a function of the collaborators' state \<open>'w\<close>. Theorems
  are proved for every \<open>env\<close>.
\<close>

subsection \<open>Data\<close>

type_synonym bytes = "8 word list"
  \<comment> \<open>\<open>std::vector<uint8_t>\<close>\<close>

type_synonym CallerId = nat
type_synonym NodeId = nat
type_synonym Version = int
type_synonym History = nat
  \<comment> \<open>\<open>kv::TxHistory*\<close>: only the identity of the handle matters\<close>

datatype ConsensusType = CFT | BFT

datatype ForwardingRequired = Sometimes | Always | Never

datatype CommitSuccess = OK | CONFLICT | NO_REPLICATE

text \<open>
  The exceptions the executor distinguishes, one constructor per \<open>catch\<close> clause of
  \<open>process_command\<close>, in the order of the clauses. \<open>StdException\<close> is every other
  exception derived from \<open>std::exception\<close>; its argument is \<open>what()\<close>.
\<close>

datatype exn =
    CompactedVersionConflict string
  | RpcException nat string
  | JsonParseError string string
  | KvSerialiserException string
  | StdException string

record SignedReq =
  sig :: bytes
  req :: bytes
  md :: nat
  key_id :: string

datatype Verifier = make_verifier bytes
  \<comment> \<open>\<open>tls::make_verifier(cert)\<close>: a verifier is determined by the certificate it is built from\<close>

record Session =
  caller_cert :: bytes
  original_caller :: "CallerId option"
  is_forwarding :: bool
  client_session_id :: nat

text \<open>
  \<open>enclave::RpcContext\<close>. The getters of the request are fields; the response is the
  fields that the setters write. \<open>should_apply_writes\<close> is what the method of that
  name answers; the endpoint handler decides it.
\<close>

record RpcContext =
  session :: Session
  get_method :: string
  get_request_headers :: "(string \<times> string) list"
  get_signed_request :: "SignedReq option"
  get_serialised_request :: bytes
  get_request_index :: nat
  frame_format :: nat
  is_create_request :: bool
  execute_on_node :: bool
  should_apply_writes :: bool
  response_status :: nat
  response_headers :: "string \<rightharpoonup> string"
  response_body :: string
  seqno :: "Version option"
  view :: "Version option"
  global_commit :: "Version option"

text \<open>
  What \<open>ctx->serialise_response()\<close> returns: the wire format is not part of the file,
  so the serialised response is the response fields it is built from.
\<close>

record Response =
  r_status :: nat
  r_headers :: "string \<rightharpoonup> string"
  r_body :: string
  r_seqno :: "Version option"
  r_view :: "Version option"
  r_global_commit :: "Version option"

record EndpointProperties =
  forwarding_required :: ForwardingRequired
  execute_locally :: bool
  require_client_signature :: bool
  require_client_identity :: bool
  require_jwt_authentication :: bool

record EndpointDefinition =
  method_key :: string
  verb_key :: string
  properties :: EndpointProperties

record Metrics =
  calls :: nat
  errors :: nat
  failures :: nat

text \<open>
  \<open>kv::Consensus\<close>: the object a \<open>kv::Consensus*\<close> points to, as its address and the
  answers of the queries the frontend makes. Two pointers are equal when the addresses
  are; the null pointer is \<open>None\<close>. The answers are taken not to change while one
  request is processed.
\<close>

record Consensus =
  address :: nat
  primary :: NodeId
  active_nodes :: "NodeId list"
  is_primary :: bool
  consensus_type :: ConsensusType
  get_committed_seqno :: Version

record NodeInfo =
  pubhost :: string
  rpcport :: string

datatype ServiceStatus = OPENING | OPEN | CLOSED

record ServiceInfo =
  service_cert :: bytes
  service_status :: ServiceStatus

record JwtToken =
  kid :: string
  jwt_header :: string
  jwt_payload :: string

text \<open>
  The calls whose occurrence the properties below speak about, in the order in which
  they are made. \<open>process_command\<close> and its helpers append to this log.
\<close>

datatype call =
    SetConsensus
  | SetHistory
  | InitHandlers
  | FindEndpoint
  | VerifyClientSignature CallerId
  | RecordClientSignature CallerId
  | PreExec
  | ExecuteEndpoint CallerId
  | Commit
  | TxReset
  | ForwardCommand NodeId CallerId
  | AddRequest CallerId
  | TryEmitSignature

text \<open>
  The state one call of the frontend works on: the members of \<open>RpcFrontend\<close>, the
  metrics of the registry (\<open>endpoints.get_metrics(endpoint)\<close> is a reference into
  them), the request context \<open>ctx\<close> (a shared pointer, mutated in place), the state
  \<open>world\<close> of the collaborators (the store and the transaction \<open>tx\<close> of the request),
  and the log of calls.
\<close>

record 'w system =
  verifiers :: "CallerId \<rightharpoonup> Verifier"
  is_open_flag :: bool  \<comment> \<open>the member \<open>is_open_\<close>\<close>
  client_signatures_name :: string
  consensus :: "Consensus option"
  cmd_forwarder :: bool
  history :: "History option"
  tx_count :: "64 word"  \<comment> \<open>\<open>std::atomic<size_t>\<close>, 64 bits: \<open>++\<close> wraps\<close>
  request_storing_disabled :: bool
  service_identity :: "bytes option"
  metrics :: "EndpointDefinition \<Rightarrow> Metrics"
  ctx :: RpcContext
  world :: "'w"
  trace :: "call list"

text \<open>
  The collaborators. A method that only reads is a function of the world; a method
  that writes returns the new world; a method that may throw returns the exception.
  The three virtual methods of the class (\<open>invalid_caller_error_message\<close>,
  \<open>lookup_forwarded_caller_cert\<close>, \<open>resolve_caller_id\<close>) are parameters as well:
  derived frontends override them. The constants \<open>INVALID_ID\<close>, \<open>NoNode\<close>,
  \<open>kv::NoVersion\<close> and \<open>http::required_signature_headers\<close> are declared outside the
  file and are parameters too.
\<close>

record 'w env =
  INVALID_ID :: CallerId
  NoNode :: NodeId
  NoVersion :: Version
  required_signature_headers :: "string list"
  \<comment> \<open>EndpointRegistry\<close>
  find_endpoint :: "'w \<Rightarrow> RpcContext \<Rightarrow> EndpointDefinition option"
  get_allowed_verbs :: "RpcContext \<Rightarrow> string list"
  get_caller_id :: "'w \<Rightarrow> bytes \<Rightarrow> CallerId"
  get_caller_id_by_digest :: "'w \<Rightarrow> string \<Rightarrow> CallerId"
  has_certs :: bool
  execute_endpoint ::
    "EndpointDefinition \<Rightarrow> CallerId \<Rightarrow> RpcContext \<Rightarrow> 'w \<Rightarrow> exn option \<times> RpcContext \<times> 'w"
  init_handlers :: "'w \<Rightarrow> 'w"
  \<comment> \<open>virtual methods of RpcFrontend\<close>
  invalid_caller_error_message :: string
  lookup_forwarded_caller_cert :: "RpcContext \<Rightarrow> 'w \<Rightarrow> bool \<times> RpcContext"
  resolve_caller_id :: "CallerId \<Rightarrow> 'w \<Rightarrow> bytes option"
  \<comment> \<open>tls::Verifier, http::JwtVerifier\<close>
  verify :: "Verifier \<Rightarrow> bytes \<Rightarrow> bytes \<Rightarrow> nat \<Rightarrow> bool"
  extract_token :: "(string \<times> string) list \<Rightarrow> JwtToken option \<times> string"
  validate_token_signature :: "JwtToken \<Rightarrow> bytes \<Rightarrow> bool"
  \<comment> \<open>kv::Store, kv::Tx and the tables read through them\<close>
  get_consensus :: "'w \<Rightarrow> Consensus option"
  get_history :: "'w \<Rightarrow> History option"
  tx_commit :: "'w \<Rightarrow> (exn + CommitSuccess) \<times> 'w"
  tx_commit_version :: "'w \<Rightarrow> Version"
  tx_get_read_version :: "'w \<Rightarrow> Version"
  tx_commit_term :: "'w \<Rightarrow> Version"
  tx_reset :: "'w \<Rightarrow> 'w"
  tx_set_req_id :: "CallerId \<times> nat \<times> nat \<Rightarrow> 'w \<Rightarrow> 'w"
  client_signatures_put :: "string \<Rightarrow> CallerId \<Rightarrow> SignedReq \<Rightarrow> 'w \<Rightarrow> 'w"
  nodes_get :: "'w \<Rightarrow> NodeId \<Rightarrow> NodeInfo option"
  service_get_globally_committed :: "'w \<Rightarrow> ServiceInfo option"
  jwt_keys_get :: "'w \<Rightarrow> string \<Rightarrow> bytes option"
  jwt_key_issuer_get :: "'w \<Rightarrow> string \<Rightarrow> string option"
  \<comment> \<open>kv::TxHistory, AbstractForwarder\<close>
  add_request ::
    "CallerId \<times> nat \<times> nat \<Rightarrow> CallerId \<Rightarrow> bytes \<Rightarrow> bytes \<Rightarrow> nat \<Rightarrow> 'w \<Rightarrow> bool \<times> 'w"
  try_emit_signature :: "'w \<Rightarrow> 'w"
  forward_command ::
    "RpcContext \<Rightarrow> NodeId \<Rightarrow> NodeId list \<Rightarrow> CallerId \<Rightarrow> bytes \<Rightarrow> 'w \<Rightarrow> bool \<times> 'w"

text \<open>
  How a call of the frontend ends: it returns (\<open>std::nullopt\<close> is \<open>Returned None\<close>),
  the process is aborted, or an exception leaves the function.
\<close>

datatype outcome = Returned "Response option" | Aborted | Threw string

text \<open>
  Modelled from the spec: the values of the \<open>http_status\<close> enumerators and the names
  of the headers in namespace \<open>http::headers\<close>, which are declared outside the file
  (section 6, "HTTP vocabulary used").
\<close>

abbreviation HTTP_STATUS_TEMPORARY_REDIRECT :: nat where "HTTP_STATUS_TEMPORARY_REDIRECT \<equiv> 307"
abbreviation HTTP_STATUS_BAD_REQUEST :: nat where "HTTP_STATUS_BAD_REQUEST \<equiv> 400"
abbreviation HTTP_STATUS_UNAUTHORIZED :: nat where "HTTP_STATUS_UNAUTHORIZED \<equiv> 401"
abbreviation HTTP_STATUS_FORBIDDEN :: nat where "HTTP_STATUS_FORBIDDEN \<equiv> 403"
abbreviation HTTP_STATUS_NOT_FOUND :: nat where "HTTP_STATUS_NOT_FOUND \<equiv> 404"
abbreviation HTTP_STATUS_METHOD_NOT_ALLOWED :: nat where "HTTP_STATUS_METHOD_NOT_ALLOWED \<equiv> 405"
abbreviation HTTP_STATUS_CONFLICT :: nat where "HTTP_STATUS_CONFLICT \<equiv> 409"
abbreviation HTTP_STATUS_INTERNAL_SERVER_ERROR :: nat where "HTTP_STATUS_INTERNAL_SERVER_ERROR \<equiv> 500"

abbreviation ALLOW :: string where "ALLOW \<equiv> ''Allow''"
abbreviation LOCATION :: string where "LOCATION \<equiv> ''Location''"
abbreviation CONTENT_TYPE :: string where "CONTENT_TYPE \<equiv> ''Content-Type''"
abbreviation WWW_AUTHENTICATE :: string where "WWW_AUTHENTICATE \<equiv> ''WWW-Authenticate''"
abbreviation TEXT :: string where "TEXT \<equiv> ''text/plain''"

subsection \<open>The request context\<close>

definition set_response_status :: "nat \<Rightarrow> 'w system \<Rightarrow> 'w system" where
  "set_response_status st s = s\<lparr>ctx := (ctx s)\<lparr>response_status := st\<rparr>\<rparr>"

definition set_response_body :: "string \<Rightarrow> 'w system \<Rightarrow> 'w system" where
  "set_response_body b s = s\<lparr>ctx := (ctx s)\<lparr>response_body := b\<rparr>\<rparr>"

definition set_response_header :: "string \<Rightarrow> string \<Rightarrow> 'w system \<Rightarrow> 'w system" where
  "set_response_header h v s =
     s\<lparr>ctx := (ctx s)\<lparr>response_headers := (response_headers (ctx s))(h \<mapsto> v)\<rparr>\<rparr>"

definition set_seqno :: "Version \<Rightarrow> 'w system \<Rightarrow> 'w system" where
  "set_seqno v s = s\<lparr>ctx := (ctx s)\<lparr>seqno := Some v\<rparr>\<rparr>"

definition set_view :: "Version \<Rightarrow> 'w system \<Rightarrow> 'w system" where
  "set_view v s = s\<lparr>ctx := (ctx s)\<lparr>view := Some v\<rparr>\<rparr>"

definition set_global_commit :: "Version \<Rightarrow> 'w system \<Rightarrow> 'w system" where
  "set_global_commit v s = s\<lparr>ctx := (ctx s)\<lparr>global_commit := Some v\<rparr>\<rparr>"

definition serialise_response :: "'w system \<Rightarrow> outcome \<times> 'w system" where
  "serialise_response s =
     (Returned (Some \<lparr>r_status = response_status (ctx s),
                      r_headers = response_headers (ctx s),
                      r_body = response_body (ctx s),
                      r_seqno = seqno (ctx s),
                      r_view = view (ctx s),
                      r_global_commit = global_commit (ctx s)\<rparr>), s)"

definition log_call :: "call \<Rightarrow> 'w system \<Rightarrow> 'w system" where
  "log_call c s = s\<lparr>trace := trace s @ [c]\<rparr>"

subsection \<open>Formatting (fmt::format, fmt::join)\<close>

fun join :: "string \<Rightarrow> string list \<Rightarrow> string" where
  "join sep [] = []"
| "join sep [x] = x"
| "join sep (x # y # ys) = x @ sep @ join sep (y # ys)"

fun fmt_nat :: "nat \<Rightarrow> string" where
  "fmt_nat n =
     (if n < 10 then [''0123456789'' ! n]
      else fmt_nat (n div 10) @ [''0123456789'' ! (n mod 10)])"

declare fmt_nat.simps [simp del]

definition max_attempts :: nat where
  "max_attempts = 30"

subsection \<open>Private helpers of RpcFrontend\<close>

text \<open>
  \<open>update_consensus\<close>, lines 63-72. Line 67 compares the two pointers, that is the
  addresses, not the answers of the objects.
\<close>

definition update_consensus :: "'w env \<Rightarrow> 'w system \<Rightarrow> 'w system" where
  "update_consensus env s =
     (let c = get_consensus env (world s) in
      if map_option address (consensus s) \<noteq> map_option address c
      then log_call SetConsensus (s\<lparr>consensus := c\<rparr>)
      else s)"

text \<open>\<open>update_history\<close>, lines 74-78.\<close>

definition update_history :: "'w env \<Rightarrow> 'w system \<Rightarrow> 'w system" where
  "update_history env s = log_call SetHistory (s\<lparr>history := get_history env (world s)\<rparr>)"

text \<open>
  \<open>update_metrics\<close>, lines 80-94. The second argument of the source is the reference
  \<open>endpoints.get_metrics(endpoint)\<close>; here it is the endpoint.
\<close>

definition update_metrics :: "EndpointDefinition \<Rightarrow> 'w system \<Rightarrow> 'w system" where
  "update_metrics endpoint s =
     (let cat = response_status (ctx s) div 100; m = metrics s endpoint in
      if cat = 4 then s\<lparr>metrics := (metrics s)(endpoint := m\<lparr>errors := errors m + 1\<rparr>)\<rparr>
      else if cat = 5 then s\<lparr>metrics := (metrics s)(endpoint := m\<lparr>failures := failures m + 1\<rparr>)\<rparr>
      else s)"

text \<open>\<open>get_cert_to_forward\<close>, lines 96-111; \<open>None\<close> is the default argument \<open>nullptr\<close>.\<close>

definition get_cert_to_forward ::
  "'w env \<Rightarrow> EndpointDefinition option \<Rightarrow> 'w system \<Rightarrow> bytes" where
  "get_cert_to_forward env endpoint s =
     (if \<not> has_certs env \<or>
         (case endpoint of None \<Rightarrow> False
          | Some e \<Rightarrow> \<not> require_client_identity (properties e))
      then caller_cert (session (ctx s))
      else [])"

text \<open>Lines 140-144 of \<open>forward_or_redirect_json\<close>, reached from three places.\<close>

definition could_not_forward :: "EndpointDefinition \<Rightarrow> 'w system \<Rightarrow> outcome \<times> 'w system" where
  "could_not_forward endpoint s =
     serialise_response
       (update_metrics endpoint
         (set_response_body ''RPC could not be forwarded to unknown primary.''
           (set_response_status HTTP_STATUS_INTERNAL_SERVER_ERROR s)))"

text \<open>
  \<open>forward_or_redirect_json\<close>, lines 113-169. \<open>&&\<close> is short-circuit:
  \<open>forward_command\<close> is called only when the primary is known.
\<close>

definition forward_or_redirect_json ::
  "'w env \<Rightarrow> EndpointDefinition \<Rightarrow> CallerId \<Rightarrow> 'w system \<Rightarrow> outcome \<times> 'w system" where
  "forward_or_redirect_json env endpoint caller_id s =
     (if cmd_forwarder s \<and> original_caller (session (ctx s)) = None then
        (case consensus s of
           None \<Rightarrow> could_not_forward endpoint s
         | Some c \<Rightarrow>
             if primary c \<noteq> NoNode env then
               (case forward_command env (ctx s) (primary c) (active_nodes c) caller_id
                       (get_cert_to_forward env (Some endpoint) s) (world s) of
                  (forwarded, w') \<Rightarrow>
                    let s1 = log_call (ForwardCommand (primary c) caller_id) (s\<lparr>world := w'\<rparr>) in
                    if forwarded then (Returned None, s1)
                    else could_not_forward endpoint s1)
             else could_not_forward endpoint s)
      else
        (let s1 = set_response_status HTTP_STATUS_TEMPORARY_REDIRECT s;
             s2 = (case consensus s1 of
                     None \<Rightarrow> s1
                   | Some c \<Rightarrow>
                       (case nodes_get env (world s1) (primary c) of
                          None \<Rightarrow> s1
                        | Some info \<Rightarrow>
                            set_response_header LOCATION (pubhost info @ '':'' @ rpcport info) s1))
         in serialise_response (update_metrics endpoint s2)))"

text \<open>
  \<open>record_client_signature\<close>, lines 171-191. \<open>no_req\<close> is a default-constructed
  \<open>SignedReq\<close> (empty fields, digest \<open>MBEDTLS_MD_NONE = 0\<close>) with the signature copied.
\<close>

definition record_client_signature ::
  "'w env \<Rightarrow> CallerId \<Rightarrow> SignedReq \<Rightarrow> 'w system \<Rightarrow> 'w system" where
  "record_client_signature env caller_id signed_request s0 =
     (let s = log_call (RecordClientSignature caller_id) s0 in
      if client_signatures_name s = [] then s
      else if request_storing_disabled s then
        (let no_req = \<lparr>sig = sig signed_request, req = [], md = 0, key_id = []\<rparr> in
         s\<lparr>world := client_signatures_put env (client_signatures_name s) caller_id no_req (world s)\<rparr>)
      else
        s\<lparr>world :=
            client_signatures_put env (client_signatures_name s) caller_id signed_request (world s)\<rparr>)"

text \<open>
  \<open>verify_client_signature\<close>, lines 193-217: on a miss the verifier built from
  \<open>caller\<close> is stored; the verifier used is the one stored under \<open>caller_id\<close>.
\<close>

definition verify_client_signature ::
  "'w env \<Rightarrow> bytes \<Rightarrow> CallerId \<Rightarrow> SignedReq \<Rightarrow> 'w system \<Rightarrow> bool \<times> 'w system" where
  "verify_client_signature env caller caller_id signed_request s0 =
     (let s = log_call (VerifyClientSignature caller_id) s0 in
      if client_signatures_name s = [] then (False, s)
      else
        (case verifiers s caller_id of
           None \<Rightarrow>
             (verify env (make_verifier caller)
                (req signed_request) (sig signed_request) (md signed_request),
              s\<lparr>verifiers := (verifiers s)(caller_id \<mapsto> make_verifier caller)\<rparr>)
         | Some verifier \<Rightarrow>
             (verify env verifier
                (req signed_request) (sig signed_request) (md signed_request), s)))"

text \<open>\<open>set_response_unauthorized\<close>, lines 219-231.\<close>

definition set_response_unauthorized :: "'w env \<Rightarrow> string \<Rightarrow> 'w system \<Rightarrow> 'w system" where
  "set_response_unauthorized env msg s =
     set_response_body msg
       (set_response_header WWW_AUTHENTICATE
          (''Signature realm=\"Signed request access\", headers=\"''
             @ join '' '' (required_signature_headers env) @ ''\"'')
          (set_response_status HTTP_STATUS_UNAUTHORIZED s))"

text \<open>\<open>set_response_unauthorized_jwt\<close>, lines 233-241.\<close>

definition set_response_unauthorized_jwt :: "string \<Rightarrow> 'w system \<Rightarrow> 'w system" where
  "set_response_unauthorized_jwt msg s =
     set_response_body msg
       (set_response_header WWW_AUTHENTICATE
          ''Bearer realm=\"JWT bearer token access\", error=\"invalid_token\"''
          (set_response_status HTTP_STATUS_UNAUTHORIZED s))"

subsection \<open>The command pipeline: process command, lines 243-568\<close>

text \<open>
  \<open>process_command\<close> is one function of 325 lines. It is split here at its early
  returns; each part is named after what the lines do and \<open>process_command\<close> below
  is their composition, in the order of the source. A part that can return from
  \<open>process_command\<close> answers \<open>Some\<close> of the outcome; \<open>None\<close> is falling through
  to the next line.
\<close>

text \<open>Lines 250-282: no endpoint was found.\<close>

definition endpoint_not_found :: "'w env \<Rightarrow> 'w system \<Rightarrow> outcome \<times> 'w system" where
  "endpoint_not_found env s =
     (let allowed_verbs = get_allowed_verbs env (ctx s) in
      if allowed_verbs = [] then
        serialise_response
          (set_response_body (''Unknown path: '' @ get_method (ctx s))
            (set_response_header CONTENT_TYPE TEXT
              (set_response_status HTTP_STATUS_NOT_FOUND s)))
      else
        (let allow_header_value = join '', '' allowed_verbs in
         serialise_response
           (set_response_body
              (''Allowed methods for '' @ [CHR 0x27] @ get_method (ctx s) @ [CHR 0x27]
                 @ '' are: '' @ allow_header_value)
             (set_response_header ALLOW allow_header_value
               (set_response_status HTTP_STATUS_METHOD_NOT_ALLOWED s)))))"

text \<open>
  Lines 289-311: on a signed request whose key id is known, the caller id becomes the
  id of the key and the session's certificate the one \<open>resolve_caller_id\<close> finds, if
  it finds one. Answers the caller id in force afterwards.
\<close>

definition signed_request_caller_id ::
  "'w env \<Rightarrow> SignedReq option \<Rightarrow> CallerId \<Rightarrow> 'w system \<Rightarrow> CallerId \<times> 'w system" where
  "signed_request_caller_id env signed_request caller_id s =
     (case signed_request of
        None \<Rightarrow> (caller_id, s)
      | Some sr \<Rightarrow>
          (let cid = get_caller_id_by_digest env (world s) (key_id sr) in
           if cid \<noteq> INVALID_ID env then
             (cid,
              case resolve_caller_id env cid (world s) of
                None \<Rightarrow> s
              | Some caller_cert' \<Rightarrow>
                  s\<lparr>ctx := (ctx s)\<lparr>session := (session (ctx s))\<lparr>caller_cert := caller_cert'\<rparr>\<rparr>\<rparr>)
           else (caller_id, s)))"

text \<open>
  Lines 313-328: the identity requirement. \<open>lookup_forwarded_caller_cert\<close> is called
  only on a forwarded request (\<open>&&\<close> is short-circuit) and may write to the context.
\<close>

definition check_identity ::
  "'w env \<Rightarrow> EndpointDefinition \<Rightarrow> CallerId \<Rightarrow> 'w system \<Rightarrow> outcome option \<times> 'w system" where
  "check_identity env endpoint caller_id s =
     (if require_client_identity (properties endpoint) \<and> has_certs env then
        (let (found, ctx') =
               (if original_caller (session (ctx s)) \<noteq> None
                then lookup_forwarded_caller_cert env (ctx s) (world s)
                else (True, ctx s));
             s1 = s\<lparr>ctx := ctx'\<rparr>
         in
         if (original_caller (session (ctx s)) \<noteq> None \<and> \<not> found) \<or> caller_id = INVALID_ID env
         then
           (case serialise_response
                   (update_metrics endpoint
                     (set_response_body (invalid_caller_error_message env)
                       (set_response_status HTTP_STATUS_FORBIDDEN s1))) of
              (out, s2) \<Rightarrow> (Some out, s2))
         else (None, s1))
      else (None, s))"

text \<open>Lines 330-331: the local \<open>is_primary\<close>.\<close>

definition frontend_is_primary :: "'w system \<Rightarrow> bool" where
  "frontend_is_primary s =
     ((case consensus s of None \<Rightarrow> True | Some c \<Rightarrow> is_primary c) \<or> is_create_request (ctx s))"

text \<open>Lines 333-341: a signature is required and there is none.\<close>

definition check_signature_required ::
  "'w env \<Rightarrow> EndpointDefinition \<Rightarrow> SignedReq option \<Rightarrow> 'w system \<Rightarrow> outcome option \<times> 'w system"
  where
  "check_signature_required env endpoint signed_request s =
     (if require_client_signature (properties endpoint) \<and> signed_request = None then
        (case serialise_response
                (update_metrics endpoint
                  (set_response_unauthorized env
                     ([CHR 0x27] @ get_method (ctx s) @ [CHR 0x27] @ '' RPC must be signed'') s)) of
           (out, s1) \<Rightarrow> (Some out, s1))
      else (None, s))"

text \<open>
  Lines 348-352: the first conjunct of the condition at line 348, which decides whether
  \<open>verify_client_signature\<close> is called.
\<close>

definition must_verify_signature :: "'w system \<Rightarrow> bool" where
  "must_verify_signature s =
     (\<not> is_create_request (ctx s) \<and>
      (\<not> (case consensus s of None \<Rightarrow> False | Some c \<Rightarrow> consensus_type c = CFT) \<or>
       original_caller (session (ctx s)) = None))"

text \<open>
  Lines 343-367: verification of the signature. Answers \<open>Inl\<close> of the outcome when
  it returns from \<open>process_command\<close>, else \<open>Inr\<close> of the local
  \<open>should_record_client_signature\<close>.
\<close>

definition check_signature ::
  "'w env \<Rightarrow> EndpointDefinition \<Rightarrow> SignedReq option \<Rightarrow> CallerId \<Rightarrow> bool \<Rightarrow> 'w system \<Rightarrow>
     (outcome + bool) \<times> 'w system" where
  "check_signature env endpoint signed_request caller_id is_primary' s =
     (case signed_request of
        None \<Rightarrow> (Inr False, s)
      | Some sr \<Rightarrow>
          (let (verified, s1) =
                 (if must_verify_signature s
                  then verify_client_signature env (caller_cert (session (ctx s))) caller_id sr s
                  else (True, s))
           in
           if must_verify_signature s \<and> \<not> verified then
             (case serialise_response
                     (update_metrics endpoint
                       (set_response_unauthorized env ''Failed to verify client signature'' s1)) of
                (out, s2) \<Rightarrow> (Inl out, s2))
           else (Inr is_primary', s1)))"

text \<open>
  Lines 369-409: the bearer token. \<open>std::optional::value()\<close> throws on an empty
  optional (lines 395 and 407); that exception leaves \<open>process_command\<close>. The token
  built at line 407 is not used afterwards.
\<close>

definition check_jwt ::
  "'w env \<Rightarrow> EndpointDefinition \<Rightarrow> 'w system \<Rightarrow> outcome option \<times> 'w system" where
  "check_jwt env endpoint s =
     (if require_jwt_authentication (properties endpoint) then
        (let (token, error_reason0) = extract_token env (get_request_headers (ctx s));
             checked =
               (case token of
                  None \<Rightarrow> Inr error_reason0
                | Some t \<Rightarrow>
                    (case jwt_keys_get env (world s) (kid t) of
                       None \<Rightarrow> Inr ''JWT signing key not found''
                     | Some token_key \<Rightarrow>
                         if \<not> validate_token_signature env t token_key
                         then Inr ''JWT signature is invalid''
                         else
                           (case jwt_key_issuer_get env (world s) (kid t) of
                              None \<Rightarrow> Inl ''bad optional access''
                            | Some key_issuer \<Rightarrow> Inr error_reason0)))
         in
         case checked of
           Inl e \<Rightarrow> (Some (Threw e), s)
         | Inr error_reason \<Rightarrow>
             if error_reason \<noteq> [] then
               (case serialise_response
                       (update_metrics endpoint
                         (set_response_unauthorized_jwt
                            ([CHR 0x27] @ get_method (ctx s) @ [CHR 0x27] @ '' '' @ error_reason) s)) of
                  (out, s1) \<Rightarrow> (Some out, s1))
             else
               (case token of
                  None \<Rightarrow> (Some (Threw ''bad optional access''), s)
                | Some t \<Rightarrow> (None, s)))
      else (None, s))"

text \<open>Lines 436-437 and 444-445: mark the session and forward or redirect.\<close>

definition forward_request ::
  "'w env \<Rightarrow> EndpointDefinition \<Rightarrow> CallerId \<Rightarrow> 'w system \<Rightarrow> outcome option \<times> 'w system" where
  "forward_request env endpoint caller_id s =
     (case forward_or_redirect_json env endpoint caller_id
             (s\<lparr>ctx := (ctx s)\<lparr>session := (session (ctx s))\<lparr>is_forwarding := True\<rparr>\<rparr>\<rparr>) of
        (out, s1) \<Rightarrow> (Some out, s1))"

text \<open>
  Lines 413-448: where the request is executed. \<open>None\<close> is execution on this node.
  \<open>is_primary'\<close> is the local computed at line 330; it is true when \<open>consensus\<close> is
  null, so the null dereference of line 414 is never reached from
  \<open>process_command\<close>. \<open>endpoint\<close> is not null here, so the condition of lines 432-434
  is \<open>!endpoint->properties.execute_locally\<close>.
\<close>

definition dispatch ::
  "'w env \<Rightarrow> EndpointDefinition \<Rightarrow> CallerId \<Rightarrow> bool \<Rightarrow> 'w system \<Rightarrow> outcome option \<times> 'w system"
  where
  "dispatch env endpoint caller_id is_primary' s =
     (if \<not> is_primary' then
        (case consensus s of
           None \<Rightarrow> (Some (Threw ''null pointer''), s)
         | Some c \<Rightarrow>
             if consensus_type c = CFT \<or> (consensus_type c \<noteq> CFT \<and> \<not> execute_on_node (ctx s))
             then
               (case forwarding_required (properties endpoint) of
                  Never \<Rightarrow> (None, s)
                | Sometimes \<Rightarrow>
                    if (is_forwarding (session (ctx s)) \<and> consensus_type c = CFT) \<or>
                       (consensus_type c \<noteq> CFT \<and> \<not> execute_on_node (ctx s) \<and>
                        \<not> execute_locally (properties endpoint))
                    then forward_request env endpoint caller_id s
                    else (None, s)
                | Always \<Rightarrow> forward_request env endpoint caller_id s)
             else (None, s))
      else (None, s))"

subsection \<open>The transactional executor, lines 450-567\<close>

text \<open>How one iteration of the loop at line 457 ends: it goes round again or it returns.\<close>

datatype step = Retry | Done outcome

text \<open>The \<open>catch\<close> clauses, lines 522-561.\<close>

definition handle_exception ::
  "'w env \<Rightarrow> EndpointDefinition \<Rightarrow> exn \<Rightarrow> 'w system \<Rightarrow> step \<times> 'w system" where
  "handle_exception env endpoint e s =
     (case e of
        CompactedVersionConflict what \<Rightarrow>
          (Retry, log_call TxReset (s\<lparr>world := tx_reset env (world s)\<rparr>))
      | RpcException status what \<Rightarrow>
          (case serialise_response
                  (update_metrics endpoint
                    (set_response_body what (set_response_status status s))) of
             (out, s1) \<Rightarrow> (Done out, s1))
      | JsonParseError pointer what \<Rightarrow>
          (case serialise_response
                  (update_metrics endpoint
                    (set_response_body (''At '' @ pointer @ '':'' @ [CHR 0x0A, CHR 0x09] @ what)
                      (set_response_status HTTP_STATUS_BAD_REQUEST s))) of
             (out, s1) \<Rightarrow> (Done out, s1))
      | KvSerialiserException what \<Rightarrow> (Done Aborted, s)
      | StdException what \<Rightarrow>
          (case serialise_response
                  (update_metrics endpoint
                    (set_response_body what
                      (set_response_status HTTP_STATUS_INTERNAL_SERVER_ERROR s))) of
             (out, s1) \<Rightarrow> (Done out, s1)))"

text \<open>
  Lines 463-473: \<open>pre_exec\<close>, the recording of the signature and the endpoint. Answers
  the exception thrown, if any. \<open>signed_request.value()\<close> at line 470 throws on an
  empty optional.
\<close>

type_synonym 'w PreExec = "RpcContext \<Rightarrow> 'w \<Rightarrow> exn option \<times> RpcContext \<times> 'w"

definition run_endpoint ::
  "'w env \<Rightarrow> 'w PreExec option \<Rightarrow> EndpointDefinition \<Rightarrow> SignedReq option \<Rightarrow> CallerId \<Rightarrow> bool \<Rightarrow>
     'w system \<Rightarrow> exn option \<times> 'w system" where
  "run_endpoint env pre_exec endpoint signed_request caller_id should_record_client_signature s =
     (let (thrown1, s1) =
            (case pre_exec of
               None \<Rightarrow> (None, s)
             | Some f \<Rightarrow>
                 (case f (ctx s) (world s) of
                    (x, ctx', w') \<Rightarrow> (x, log_call PreExec (s\<lparr>ctx := ctx', world := w'\<rparr>))))
      in
      case thrown1 of
        Some e \<Rightarrow> (Some e, s1)
      | None \<Rightarrow>
          (let (thrown2, s2) =
                 (if should_record_client_signature then
                    (case signed_request of
                       None \<Rightarrow> (Some (StdException ''bad optional access''), s1)
                     | Some sr \<Rightarrow> (None, record_client_signature env caller_id sr s1))
                  else (None, s1))
           in
           case thrown2 of
             Some e \<Rightarrow> (Some e, s2)
           | None \<Rightarrow>
               (case execute_endpoint env endpoint caller_id (ctx s2) (world s2) of
                  (x, ctx', w') \<Rightarrow>
                    (x, log_call (ExecuteEndpoint caller_id) (s2\<lparr>ctx := ctx', world := w'\<rparr>)))))"

text \<open>Lines 483-506: the commit succeeded.\<close>

definition commit_ok :: "'w env \<Rightarrow> EndpointDefinition \<Rightarrow> 'w system \<Rightarrow> outcome \<times> 'w system" where
  "commit_ok env endpoint s =
     (let cv0 = tx_commit_version env (world s);
          cv = (if cv0 = 0 then tx_get_read_version env (world s) else cv0);
          s3 =
            (case consensus s of
               None \<Rightarrow> s
             | Some c \<Rightarrow>
                 (let s1 = (if cv \<noteq> NoVersion env
                            then set_view (tx_commit_term env (world s)) (set_seqno cv s)
                            else s);
                      s2 = set_global_commit (get_committed_seqno c) s1
                  in
                  if history s2 \<noteq> None \<and> is_primary c
                  then log_call TryEmitSignature (s2\<lparr>world := try_emit_signature env (world s2)\<rparr>)
                  else s2))
      in serialise_response (update_metrics endpoint s3))"

text \<open>Lines 459-561: the body of the loop, once.\<close>

definition attempt ::
  "'w env \<Rightarrow> 'w PreExec option \<Rightarrow> EndpointDefinition \<Rightarrow> SignedReq option \<Rightarrow> CallerId \<Rightarrow> bool \<Rightarrow>
     'w system \<Rightarrow> step \<times> 'w system" where
  "attempt env pre_exec endpoint signed_request caller_id should_record_client_signature s =
     (case run_endpoint env pre_exec endpoint signed_request caller_id
             should_record_client_signature s of
        (Some e, s1) \<Rightarrow> handle_exception env endpoint e s1
      | (None, s1) \<Rightarrow>
          if \<not> should_apply_writes (ctx s1) then
            (case serialise_response (update_metrics endpoint s1) of
               (out, s2) \<Rightarrow> (Done out, s2))
          else
            (case tx_commit env (world s1) of
               (result, w') \<Rightarrow>
                 (let s2 = log_call Commit (s1\<lparr>world := w'\<rparr>) in
                  case result of
                    Inl e \<Rightarrow> handle_exception env endpoint e s2
                  | Inr OK \<Rightarrow>
                      (case commit_ok env endpoint s2 of (out, s3) \<Rightarrow> (Done out, s3))
                  | Inr CONFLICT \<Rightarrow> (Retry, s2)
                  | Inr NO_REPLICATE \<Rightarrow>
                      (case serialise_response
                              (update_metrics endpoint
                                (set_response_body ''Transaction failed to replicate.''
                                  (set_response_status HTTP_STATUS_INTERNAL_SERVER_ERROR s2))) of
                         (out, s3) \<Rightarrow> (Done out, s3)))))"

text \<open>Lines 564-567: the attempts are used up. \<open>update_metrics\<close> is not called here.\<close>

definition attempts_exhausted :: "'w system \<Rightarrow> outcome \<times> 'w system" where
  "attempts_exhausted s =
     serialise_response
       (set_response_body
          (''Transaction continued to conflict after '' @ fmt_nat max_attempts @ '' attempts.'')
          (set_response_status HTTP_STATUS_CONFLICT s))"

text \<open>
  Lines 454-567: the loop. The result carries the final value of the local
  \<open>attempts\<close> beside the outcome.
\<close>

function retry_loop ::
  "'w env \<Rightarrow> 'w PreExec option \<Rightarrow> EndpointDefinition \<Rightarrow> SignedReq option \<Rightarrow> CallerId \<Rightarrow> bool \<Rightarrow>
     nat \<Rightarrow> 'w system \<Rightarrow> outcome \<times> nat \<times> 'w system" where
  "retry_loop env pre_exec endpoint signed_request caller_id should_record attempts s =
     (if attempts < max_attempts then
        (case attempt env pre_exec endpoint signed_request caller_id should_record s of
           (Retry, s1) \<Rightarrow>
             retry_loop env pre_exec endpoint signed_request caller_id should_record
               (Suc attempts) s1
         | (Done out, s1) \<Rightarrow> (out, Suc attempts, s1))
      else
        (case attempts_exhausted s of (out, s1) \<Rightarrow> (out, attempts, s1)))"
  by pat_completeness auto
termination
  by (relation "measure (\<lambda>(env, pre_exec, endpoint, signed_request, caller_id, should_record,
                            attempts, s). max_attempts - attempts)") auto

declare retry_loop.simps [simp del]

text \<open>Lines 450-567.\<close>

definition execute ::
  "'w env \<Rightarrow> 'w PreExec option \<Rightarrow> EndpointDefinition \<Rightarrow> SignedReq option \<Rightarrow> CallerId \<Rightarrow> bool \<Rightarrow>
     'w system \<Rightarrow> outcome \<times> 'w system" where
  "execute env pre_exec endpoint signed_request caller_id should_record s =
     (case retry_loop env pre_exec endpoint signed_request caller_id should_record 0
             (s\<lparr>tx_count := tx_count s + 1\<rparr>) of
        (out, attempts, s1) \<Rightarrow> (out, s1))"

text \<open>Lines 313-567: \<open>process_command\<close> from the identity requirement on.\<close>

definition authorise_and_execute ::
  "'w env \<Rightarrow> 'w PreExec option \<Rightarrow> EndpointDefinition \<Rightarrow> SignedReq option \<Rightarrow> CallerId \<Rightarrow>
     'w system \<Rightarrow> outcome \<times> 'w system" where
  "authorise_and_execute env pre_exec endpoint signed_request caller_id s =
     (case check_identity env endpoint caller_id s of
        (Some out, s1) \<Rightarrow> (out, s1)
      | (None, s1) \<Rightarrow>
          (let is_primary' = frontend_is_primary s1 in
           case check_signature_required env endpoint signed_request s1 of
             (Some out, s2) \<Rightarrow> (out, s2)
           | (None, s2) \<Rightarrow>
               (case check_signature env endpoint signed_request caller_id is_primary' s2 of
                  (Inl out, s3) \<Rightarrow> (out, s3)
                | (Inr should_record_client_signature, s3) \<Rightarrow>
                    (case check_jwt env endpoint s3 of
                       (Some out, s4) \<Rightarrow> (out, s4)
                     | (None, s4) \<Rightarrow>
                         (case dispatch env endpoint caller_id is_primary'
                                 (update_history env s4) of
                            (Some out, s5) \<Rightarrow> (out, s5)
                          | (None, s5) \<Rightarrow>
                              execute env pre_exec endpoint signed_request caller_id
                                should_record_client_signature s5)))))"

text \<open>\<open>process_command\<close>, lines 243-568.\<close>

definition process_command ::
  "'w env \<Rightarrow> 'w PreExec option \<Rightarrow> CallerId \<Rightarrow> 'w system \<Rightarrow> outcome \<times> 'w system" where
  "process_command env pre_exec caller_id s0 =
     (let s = log_call FindEndpoint s0 in
      case find_endpoint env (world s) (ctx s) of
        None \<Rightarrow> endpoint_not_found env s
      | Some endpoint \<Rightarrow>
          (let m = metrics s endpoint;
               s1 = s\<lparr>metrics := (metrics s)(endpoint := m\<lparr>calls := calls m + 1\<rparr>)\<rparr>;
               signed_request = get_signed_request (ctx s1);
               (caller_id', s2) = signed_request_caller_id env signed_request caller_id s1
           in authorise_and_execute env pre_exec endpoint signed_request caller_id' s2))"

subsection \<open>The public entry points\<close>

text \<open>\<open>is_open\<close>, lines 617-635.\<close>

definition is_open :: "'w env \<Rightarrow> 'w system \<Rightarrow> bool \<times> 'w system" where
  "is_open env s =
     (if \<not> is_open_flag s then
        (case service_get_globally_committed env (world s) of
           None \<Rightarrow> (False, s)
         | Some sv \<Rightarrow>
             if service_status sv = OPEN \<and> service_identity s = Some (service_cert sv)
             then (True, log_call InitHandlers
                           (s\<lparr>is_open_flag := True, world := init_handlers env (world s)\<rparr>))
             else (False, s))
      else (True, s))"

text \<open>
  \<open>process\<close>, lines 646-714. The transaction \<open>tx\<close> that line 651 creates is part of
  \<open>world\<close>.
\<close>

definition process :: "'w env \<Rightarrow> 'w system \<Rightarrow> outcome \<times> 'w system" where
  "process env s0 =
     (case is_open env (update_consensus env s0) of
        (False, s) \<Rightarrow>
          serialise_response
            (set_response_body ''Frontend is not open.''
              (set_response_status HTTP_STATUS_NOT_FOUND s))
      | (True, s) \<Rightarrow>
          (let caller_id = get_caller_id env (world s) (caller_cert (session (ctx s)));
               s1 = log_call FindEndpoint s;
               endpoint = find_endpoint env (world s1) (ctx s1);
               is_bft = (case consensus s1 of None \<Rightarrow> False | Some c \<Rightarrow> consensus_type c = BFT);
               is_local = (case endpoint of None \<Rightarrow> False
                           | Some e \<Rightarrow> execute_locally (properties e));
               should_bft_distribute =
                 (is_bft \<and> \<not> is_local \<and>
                  (execute_on_node (ctx s1) \<or>
                   (case consensus s1 of None \<Rightarrow> False | Some c \<Rightarrow> is_primary c)))
           in
           if should_bft_distribute then
             (let s2 = update_history env s1;
                  reqid = (caller_id, client_session_id (session (ctx s2)),
                           get_request_index (ctx s2))
              in
              case history s2 of
                Some h \<Rightarrow>
                  (case add_request env reqid caller_id (get_cert_to_forward env None s2)
                          (get_serialised_request (ctx s2)) (frame_format (ctx s2)) (world s2) of
                     (added, w') \<Rightarrow>
                       (let s3 = log_call (AddRequest caller_id) (s2\<lparr>world := w'\<rparr>) in
                        if \<not> added then
                          serialise_response
                            (set_response_body ''Could not process request.''
                              (set_response_status HTTP_STATUS_INTERNAL_SERVER_ERROR s3))
                        else (Returned None, s3\<lparr>world := tx_set_req_id env reqid (world s3)\<rparr>)))
              | None \<Rightarrow>
                  serialise_response
                    (set_response_body ''Consensus is not yet ready.''
                      (set_response_status HTTP_STATUS_INTERNAL_SERVER_ERROR s2)))
           else process_command env None caller_id s1))"

section \<open>Notions used to state the properties\<close>

text \<open>The caller id a logged call was made with, if it takes one.\<close>

fun call_caller :: "call \<Rightarrow> CallerId option" where
  "call_caller (VerifyClientSignature c) = Some c"
| "call_caller (RecordClientSignature c) = Some c"
| "call_caller (ExecuteEndpoint c) = Some c"
| "call_caller (ForwardCommand n c) = Some c"
| "call_caller (AddRequest c) = Some c"
| "call_caller _ = None"

text \<open>
  \<open>frame cid s s'\<close>: from \<open>s\<close> to \<open>s'\<close> no verifier was removed or replaced, the name of the
  signatures table is the same, and every call logged in between that takes a caller id
  was made with \<open>cid\<close>.
\<close>

definition frame :: "CallerId \<Rightarrow> 'w system \<Rightarrow> 'w system \<Rightarrow> bool" where
  "frame cid s s' \<longleftrightarrow>
     verifiers s \<subseteq>\<^sub>m verifiers s' \<and>
     client_signatures_name s' = client_signatures_name s \<and>
     (\<exists>cs. trace s' = trace s @ cs \<and> (\<forall>c \<in> set cs. call_caller c = None \<or> call_caller c = Some cid))"

text \<open>The state at the start of iteration \<open>k + 1\<close> of the loop entered in state \<open>s\<close>.\<close>

fun after_attempts ::
  "'w env \<Rightarrow> 'w PreExec option \<Rightarrow> EndpointDefinition \<Rightarrow> SignedReq option \<Rightarrow> CallerId \<Rightarrow> bool \<Rightarrow>
     nat \<Rightarrow> 'w system \<Rightarrow> 'w system" where
  "after_attempts env pre e sr cid rec 0 s = s"
| "after_attempts env pre e sr cid rec (Suc k) s =
     after_attempts env pre e sr cid rec k (snd (attempt env pre e sr cid rec s))"

text \<open>
  The iteration started in state \<open>s\<close> ends in a conflict: \<open>pre_exec\<close>, the recording, the
  endpoint or the commit throws \<open>CompactedVersionConflict\<close>, or the commit answers
  \<open>CONFLICT\<close>.
\<close>

definition conflicts ::
  "'w env \<Rightarrow> 'w PreExec option \<Rightarrow> EndpointDefinition \<Rightarrow> SignedReq option \<Rightarrow> CallerId \<Rightarrow> bool \<Rightarrow>
     'w system \<Rightarrow> bool" where
  "conflicts env pre e sr cid rec s \<longleftrightarrow>
     (case run_endpoint env pre e sr cid rec s of
        (Some x, s1) \<Rightarrow> (case x of CompactedVersionConflict w \<Rightarrow> True | _ \<Rightarrow> False)
      | (None, s1) \<Rightarrow>
          should_apply_writes (ctx s1) \<and>
          (case fst (tx_commit env (world s1)) of
             Inl x \<Rightarrow> (case x of CompactedVersionConflict w \<Rightarrow> True | _ \<Rightarrow> False)
           | Inr r \<Rightarrow> r = CONFLICT))"

text \<open>
  The exception that \<open>pre_exec\<close>, the recording, the endpoint or the commit throws in the
  iteration of the loop started in state \<open>s\<close>, if any.
\<close>

definition thrown ::
  "'w env \<Rightarrow> 'w PreExec option \<Rightarrow> EndpointDefinition \<Rightarrow> SignedReq option \<Rightarrow> CallerId \<Rightarrow> bool \<Rightarrow>
     'w system \<Rightarrow> exn option" where
  "thrown env pre e sr cid rec s =
     (case run_endpoint env pre e sr cid rec s of
        (Some x, s1) \<Rightarrow> Some x
      | (None, s1) \<Rightarrow>
          if should_apply_writes (ctx s1) then
            (case fst (tx_commit env (world s1)) of Inl x \<Rightarrow> Some x | Inr r \<Rightarrow> None)
          else None)"

text \<open>
  The state in which that exception is caught: the state after the part of the \<open>try\<close>
  block that ran.
\<close>

definition thrown_in ::
  "'w env \<Rightarrow> 'w PreExec option \<Rightarrow> EndpointDefinition \<Rightarrow> SignedReq option \<Rightarrow> CallerId \<Rightarrow> bool \<Rightarrow>
     'w system \<Rightarrow> 'w system" where
  "thrown_in env pre e sr cid rec s =
     (case run_endpoint env pre e sr cid rec s of
        (Some x, s1) \<Rightarrow> s1
      | (None, s1) \<Rightarrow> log_call Commit (s1\<lparr>world := snd (tx_commit env (world s1))\<rparr>))"

text \<open>
  The metrics \<open>m\<close> after \<open>update_metrics\<close> for a response with the given status; and
  \<open>accounted e m out s'\<close>: in the final state \<open>s'\<close> the metrics are \<open>m\<close> with the response
  of \<open>out\<close>, if there is one, counted once for endpoint \<open>e\<close>.
\<close>

definition account ::
  "EndpointDefinition \<Rightarrow> nat \<Rightarrow> (EndpointDefinition \<Rightarrow> Metrics) \<Rightarrow> EndpointDefinition \<Rightarrow> Metrics" where
  "account e status m =
     (if status div 100 = 4 then m(e := (m e)\<lparr>errors := errors (m e) + 1\<rparr>)
      else if status div 100 = 5 then m(e := (m e)\<lparr>failures := failures (m e) + 1\<rparr>)
      else m)"

definition accounted ::
  "EndpointDefinition \<Rightarrow> (EndpointDefinition \<Rightarrow> Metrics) \<Rightarrow> outcome \<Rightarrow> 'w system \<Rightarrow> bool" where
  "accounted e m out s' \<longleftrightarrow>
     (case out of
        Returned (Some r) \<Rightarrow> metrics s' = account e (r_status r) m
      | _ \<Rightarrow> metrics s' = m)"

text \<open>
  \<open>exhausted \<dots> s r\<close>: each of the 30 iterations of the loop entered in state \<open>s\<close> ends
  in a conflict, and \<open>r\<close> is what lines 564-567 return after them.
\<close>

definition exhausted ::
  "'w env \<Rightarrow> 'w PreExec option \<Rightarrow> EndpointDefinition \<Rightarrow> SignedReq option \<Rightarrow> CallerId \<Rightarrow> bool \<Rightarrow>
     'w system \<Rightarrow> outcome \<times> 'w system \<Rightarrow> bool" where
  "exhausted env pre e sr cid rec s r \<longleftrightarrow>
     (\<forall>j. j < max_attempts \<longrightarrow>
        conflicts env pre e sr cid rec (after_attempts env pre e sr cid rec j s)) \<and>
     r = attempts_exhausted (after_attempts env pre e sr cid rec max_attempts s)"

section \<open>Concrete collaborators and requests\<close>

text \<open>
  A registry with one endpoint, \<open>POST /log\<close>, and a store whose state is the number of
  endpoint executions so far. \<open>exec_script\<close> and \<open>commit_script\<close> say what the endpoint
  throws and what the commit answers at each state. The virtual methods are those of
  the base class (lines 37-40 and 824-833).
\<close>

definition test_endpoint :: EndpointDefinition where
  "test_endpoint =
     \<lparr>method_key = ''/log'', verb_key = ''POST'',
      properties = \<lparr>forwarding_required = Always, execute_locally = False,
                    require_client_signature = False, require_client_identity = True,
                    require_jwt_authentication = False\<rparr>\<rparr>"

definition test_env :: "(nat \<Rightarrow> exn option) \<Rightarrow> (nat \<Rightarrow> exn + CommitSuccess) \<Rightarrow> nat env" where
  "test_env exec_script commit_script =
     \<lparr>INVALID_ID = 18446744073709551615,
      NoNode = 18446744073709551615,
      NoVersion = - 9223372036854775808,
      required_signature_headers = [''(request-target)'', ''digest''],
      find_endpoint = (\<lambda>w c. if get_method c = ''/log'' then Some test_endpoint else None),
      get_allowed_verbs = (\<lambda>c. []),
      get_caller_id = (\<lambda>w cert. 1),
      get_caller_id_by_digest = (\<lambda>w k. if k = ''key7'' then 7 else 18446744073709551615),
      has_certs = True,
      execute_endpoint =
        (\<lambda>e cid c w. (exec_script w, c\<lparr>should_apply_writes := True, response_status := 200\<rparr>, Suc w)),
      init_handlers = (\<lambda>w. w),
      invalid_caller_error_message = ''Could not find matching actor certificate'',
      lookup_forwarded_caller_cert = (\<lambda>c w. (True, c)),
      resolve_caller_id = (\<lambda>cid w. None),
      verify = (\<lambda>v r g m. v = make_verifier g),
      extract_token = (\<lambda>h. (None, ''Missing authorization header'')),
      validate_token_signature = (\<lambda>t k. True),
      get_consensus = (\<lambda>w. None),
      get_history = (\<lambda>w. None),
      tx_commit = (\<lambda>w. (commit_script w, w)),
      tx_commit_version = (\<lambda>w. 42),
      tx_get_read_version = (\<lambda>w. 41),
      tx_commit_term = (\<lambda>w. 3),
      tx_reset = (\<lambda>w. w),
      tx_set_req_id = (\<lambda>r w. w),
      client_signatures_put = (\<lambda>n c sr w. w),
      nodes_get = (\<lambda>w n. if n = 0 then Some \<lparr>pubhost = ''10.0.0.1'', rpcport = ''8080''\<rparr> else None),
      service_get_globally_committed = (\<lambda>w. None),
      jwt_keys_get = (\<lambda>w k. None),
      jwt_key_issuer_get = (\<lambda>w k. None),
      add_request = (\<lambda>r c cert q f w. (True, w)),
      try_emit_signature = (\<lambda>w. w),
      forward_command = (\<lambda>c p ns cid cert w. (True, w))\<rparr>"

definition test_ctx :: RpcContext where
  "test_ctx =
     \<lparr>session = \<lparr>caller_cert = [1], original_caller = None, is_forwarding = False,
                 client_session_id = 0\<rparr>,
      get_method = ''/log'', get_request_headers = [], get_signed_request = None,
      get_serialised_request = [], get_request_index = 0, frame_format = 0,
      is_create_request = False, execute_on_node = False, should_apply_writes = False,
      response_status = 200, response_headers = Map.empty, response_body = [],
      seqno = None, view = None, global_commit = None\<rparr>"

definition test_system :: "nat system" where
  "test_system =
     \<lparr>verifiers = Map.empty, is_open_flag = True,
      client_signatures_name = ''ccf.user_client_signatures'', consensus = None,
      cmd_forwarder = False, history = None, tx_count = 0, request_storing_disabled = False,
      service_identity = None,
      metrics = (\<lambda>e. \<lparr>calls = 0, errors = 0, failures = 0\<rparr>),
      ctx = test_ctx, world = 0, trace = []\<rparr>"

definition always_conflict :: "nat env" where
  "always_conflict = test_env (\<lambda>w. None) (\<lambda>w. Inr CONFLICT)"

text \<open>The endpoint runs without an exception and the commit succeeds.\<close>

definition plain_env :: "nat env" where
  "plain_env = test_env (\<lambda>w. None) (\<lambda>w. Inr OK)"

text \<open>
  Signed requests of the key \<open>key7\<close>. The toy verifier built from a certificate accepts
  a request when its signature is that certificate: \<open>good_signature\<close> is accepted by the
  verifier of certificate \<open>[5]\<close> only, \<open>bad_signature\<close> by that of \<open>[9]\<close> only.
\<close>

definition good_signature :: SignedReq where
  "good_signature = \<lparr>sig = [5], req = [5], md = 0, key_id = ''key7''\<rparr>"

definition bad_signature :: SignedReq where
  "bad_signature = \<lparr>sig = [9], req = [6], md = 0, key_id = ''key7''\<rparr>"

text \<open>The request of \<open>test_system\<close>, signed.\<close>

definition signed_system :: "SignedReq \<Rightarrow> nat system" where
  "signed_system sr = test_system\<lparr>ctx := test_ctx\<lparr>get_signed_request := Some sr\<rparr>\<rparr>"

text \<open>Consensus as seen on a BFT backup and on a CFT primary; node 0 is the primary.\<close>

definition bft_backup :: Consensus where
  "bft_backup = \<lparr>address = 1, primary = 0, active_nodes = [0, 1, 2, 3], is_primary = False,
                  consensus_type = BFT, get_committed_seqno = 40\<rparr>"

definition cft_primary :: Consensus where
  "cft_primary = \<lparr>address = 2, primary = 0, active_nodes = [0, 1, 2], is_primary = True,
                   consensus_type = CFT, get_committed_seqno = 40\<rparr>"

text \<open>The endpoint throws \<open>CompactedVersionConflict\<close> the first time it runs, and not again.\<close>

definition conflict_once :: "nat env" where
  "conflict_once =
     test_env (\<lambda>w. if w = 0 then Some (CompactedVersionConflict ''compacted'') else None)
       (\<lambda>w. Inr OK)"

text \<open>
  A request that arrived forwarded (\<open>session.original_caller\<close> is set) on a backup with
  a forwarder; \<open>p\<close> is the primary. The nodes table knows node 0 only.
\<close>

definition forwarded_system :: "NodeId \<Rightarrow> nat system" where
  "forwarded_system p =
     test_system\<lparr>consensus := Some (bft_backup\<lparr>primary := p\<rparr>), cmd_forwarder := True,
                  ctx := test_ctx\<lparr>session := (session test_ctx)\<lparr>original_caller := Some 1\<rparr>\<rparr>\<rparr>"

text \<open>The endpoint runs and the commit throws \<open>x\<close>.\<close>

definition commit_throws :: "exn \<Rightarrow> nat env" where
  "commit_throws x = test_env (\<lambda>w. None) (\<lambda>w. Inl x)"

text \<open>
  A frontend that is not open, and a store whose consensus object is \<open>cft_primary\<close>
  while the frontend holds none.
\<close>

definition closed_system :: "nat system" where
  "closed_system = test_system\<lparr>is_open_flag := False\<rparr>"

definition consensus_env :: "nat env" where
  "consensus_env = plain_env\<lparr>get_consensus := (\<lambda>w. Some cft_primary)\<rparr>"

section \<open>Properties\<close>

subsection \<open>Evaluation of the concrete collaborators\<close>

lemma test_env_sel:
  "INVALID_ID (test_env x c) = 18446744073709551615"
  "NoNode (test_env x c) = 18446744073709551615"
  "NoVersion (test_env x c) = - 9223372036854775808"
  "required_signature_headers (test_env x c) = [''(request-target)'', ''digest'']"
  "find_endpoint (test_env x c) = (\<lambda>w c. if get_method c = ''/log'' then Some test_endpoint else None)"
  "get_allowed_verbs (test_env x c) = (\<lambda>c. [])"
  "get_caller_id (test_env x c) = (\<lambda>w cert. 1)"
  "get_caller_id_by_digest (test_env x c) = (\<lambda>w k. if k = ''key7'' then 7 else 18446744073709551615)"
  "has_certs (test_env x c) = True"
  "execute_endpoint (test_env x c) =
     (\<lambda>e cid c w. (x w, c\<lparr>should_apply_writes := True, response_status := 200\<rparr>, Suc w))"
  "init_handlers (test_env x c) = (\<lambda>w. w)"
  "invalid_caller_error_message (test_env x c) = ''Could not find matching actor certificate''"
  "lookup_forwarded_caller_cert (test_env x c) = (\<lambda>c w. (True, c))"
  "resolve_caller_id (test_env x c) = (\<lambda>cid w. None)"
  "verify (test_env x c) = (\<lambda>v r g m. v = make_verifier g)"
  "extract_token (test_env x c) = (\<lambda>h. (None, ''Missing authorization header''))"
  "get_consensus (test_env x c) = (\<lambda>w. None)"
  "get_history (test_env x c) = (\<lambda>w. None)"
  "tx_commit (test_env x c) = (\<lambda>w. (c w, w))"
  "tx_commit_version (test_env x c) = (\<lambda>w. 42)"
  "tx_get_read_version (test_env x c) = (\<lambda>w. 41)"
  "tx_commit_term (test_env x c) = (\<lambda>w. 3)"
  "tx_reset (test_env x c) = (\<lambda>w. w)"
  "tx_set_req_id (test_env x c) = (\<lambda>r w. w)"
  "client_signatures_put (test_env x c) = (\<lambda>n c sr w. w)"
  "nodes_get (test_env x c) = (\<lambda>w n. if n = 0 then Some \<lparr>pubhost = ''10.0.0.1'', rpcport = ''8080''\<rparr> else None)"
  "service_get_globally_committed (test_env x c) = (\<lambda>w. None)"
  "add_request (test_env x c) = (\<lambda>r c cert q f w. (True, w))"
  "try_emit_signature (test_env x c) = (\<lambda>w. w)"
  "forward_command (test_env x c) = (\<lambda>c p ns cid cert w. (True, w))"
  by (simp_all add: test_env_def)

lemmas test_defs = test_env_sel test_system_def test_ctx_def test_endpoint_def plain_env_def
  always_conflict_def good_signature_def bad_signature_def

subsection \<open>Framing\<close>

lemmas ctx_defs = serialise_response_def update_metrics_def set_response_unauthorized_def set_response_unauthorized_jwt_def
   set_response_body_def set_response_header_def set_response_status_def log_call_def
   set_seqno_def set_view_def set_global_commit_def

lemma frame_refl: "frame cid s s"
  by (simp add: frame_def)

lemma frame_trans: "frame cid s s1 \<Longrightarrow> frame cid s1 s2 \<Longrightarrow> frame cid s s2"
  unfolding frame_def by (auto intro: map_le_trans)

lemma frame_same:
  "verifiers s' = verifiers s \<Longrightarrow> client_signatures_name s' = client_signatures_name s \<Longrightarrow> trace s' = trace s \<Longrightarrow> frame cid s s'"
  by (simp add: frame_def)

lemma frame_log:
  "verifiers s' = verifiers s \<Longrightarrow> client_signatures_name s' = client_signatures_name s \<Longrightarrow> trace s' = trace s @ [c] \<Longrightarrow>
   call_caller c = None \<or> call_caller c = Some cid \<Longrightarrow> frame cid s s'"
  by (simp add: frame_def)

lemma frame_serialise: "snd (serialise_response s) = s" "frame cid s (update_metrics e s)"
  "frame cid s (set_response_status st s)" "frame cid s (set_response_body b s)" "frame cid s (set_response_header h v s)"
  by (simp_all add: ctx_defs frame_def Let_def)

lemma frame_verify: "frame cid s (snd (verify_client_signature env cert cid sr s))"
  by (auto simp add: verify_client_signature_def log_call_def Let_def frame_def map_le_def split: option.splits)

lemma frame_record: "frame cid s (record_client_signature env cid sr s)"
  by (auto simp add: record_client_signature_def log_call_def Let_def frame_def)

lemma frame_could_not_forward: "frame cid s (snd (could_not_forward e s))"
  by (auto simp add: could_not_forward_def ctx_defs Let_def frame_def)

lemma frame_forward: "frame cid s (snd (forward_or_redirect_json env e cid s))"
  by (auto simp add: forward_or_redirect_json_def could_not_forward_def ctx_defs Let_def frame_def split: option.splits prod.splits)

lemma frame_forward_request: "frame cid s (snd (forward_request env e cid s))"
  by (auto simp add: forward_request_def forward_or_redirect_json_def could_not_forward_def ctx_defs Let_def frame_def split: option.splits prod.splits)

lemma frame_check_identity: "frame cid s (snd (check_identity env e cid s))"
  by (auto simp add: check_identity_def ctx_defs Let_def frame_def split: option.splits prod.splits)

lemma frame_check_signature_required: "frame cid s (snd (check_signature_required env e sr s))"
  by (auto simp add: check_signature_required_def ctx_defs Let_def frame_def split: option.splits prod.splits)

lemma frame_check_signature: "frame cid s (snd (check_signature env e sr cid ip s))"
  by (auto simp add: check_signature_def verify_client_signature_def ctx_defs Let_def frame_def map_le_def split: option.splits prod.splits)

lemma frame_check_jwt: "frame cid s (snd (check_jwt env e s))"
  by (auto simp add: check_jwt_def ctx_defs Let_def frame_def split: option.splits prod.splits sum.splits)

lemma frame_update_history: "frame cid s (update_history env s)"
  by (auto simp add: update_history_def ctx_defs Let_def frame_def)

lemma frame_dispatch: "frame cid s (snd (dispatch env e cid ip s))"
  by (auto simp add: dispatch_def frame_refl frame_forward_request split: option.splits ForwardingRequired.splits)

lemma frame_handle_exception: "frame cid s (snd (handle_exception env e x s))"
  by (auto simp add: handle_exception_def ctx_defs Let_def frame_def split: exn.splits)

lemma frame_run_endpoint: "frame cid s (snd (run_endpoint env pre e sr cid rec s))"
  by (auto simp add: run_endpoint_def record_client_signature_def ctx_defs Let_def frame_def split: option.splits prod.splits)

lemma frame_commit_ok: "frame cid s (snd (commit_ok env e s))"
  by (auto simp add: commit_ok_def ctx_defs Let_def frame_def split: option.splits prod.splits)

lemma frame_attempt: "frame cid s (snd (attempt env pre e sr cid rec s))"
proof -
  obtain x s1 where r: "run_endpoint env pre e sr cid rec s = (x, s1)"
    by (cases "run_endpoint env pre e sr cid rec s")
  have f1: "frame cid s s1"
    using frame_run_endpoint [of cid s env pre e sr rec] r by simp
  show ?thesis
  proof (cases x)
    case (Some ex)
    then show ?thesis
      using r f1 frame_handle_exception [of cid s1 env e ex]
      by (simp add: attempt_def) (rule frame_trans)
  next
    case None
    note x = this
    show ?thesis
    proof (cases "should_apply_writes (ctx s1)")
      case False
      then show ?thesis
        using r x f1 frame_serialise(2) [of cid s1 e]
        by (simp add: attempt_def serialise_response_def) (rule frame_trans)
    next
      case True
      obtain res w' where c: "tx_commit env (world s1) = (res, w')"
        by (cases "tx_commit env (world s1)")
      define s2 where "s2 = log_call Commit (s1\<lparr>world := w'\<rparr>)"
      have f2: "frame cid s s2"
        using f1 by (auto simp add: s2_def log_call_def frame_def)
      have f3: "frame cid s2 (snd (handle_exception env e ex s2))" for ex
        by (rule frame_handle_exception)
      have f4: "frame cid s2 (snd (commit_ok env e s2))"
        by (rule frame_commit_ok)
      have f5: "frame cid s2 (update_metrics e (set_response_body b (set_response_status st s2)))" for b st
        by (simp add: ctx_defs frame_def Let_def)
      have "frame cid s2 (snd (attempt env pre e sr cid rec s))"
        using r x True c f3 f4 f5
        by (simp add: attempt_def Let_def s2_def [symmetric] frame_refl serialise_response_def
              split_beta split: sum.splits CommitSuccess.splits)
      with f2 show ?thesis by (rule frame_trans)
    qed
  qed
qed

lemma retry_loop_frame_aux:
  "frame cid s (snd (snd (retry_loop env pre e sr cid rec n s)))"
proof (induction env pre e sr cid rec n s rule: retry_loop.induct)
  case (1 env pre e sr cid rec n s)
  obtain st s1 where a: "attempt env pre e sr cid rec s = (st, s1)"
    by (cases "attempt env pre e sr cid rec s")
  have f1: "frame cid s s1"
    using frame_attempt [of cid s env pre e sr rec] a by simp
  show ?case
  proof (cases "n < max_attempts")
    case False
    then show ?thesis
      by (subst retry_loop.simps) (simp add: attempts_exhausted_def ctx_defs frame_def)
  next
    case True
    show ?thesis
    proof (cases st)
      case Retry
      have "frame cid s1 (snd (snd (retry_loop env pre e sr cid rec (Suc n) s1)))"
        using "1.IH" [OF True a [symmetric] Retry] .
      with f1 have "frame cid s (snd (snd (retry_loop env pre e sr cid rec (Suc n) s1)))"
        by (rule frame_trans)
      then show ?thesis
        using True a Retry by (subst retry_loop.simps) simp
    next
      case (Done out)
      then show ?thesis
        using True a f1 by (subst retry_loop.simps) simp
    qed
  qed
qed

lemma frame_execute: "frame cid s (snd (execute env pre e sr cid rec s))"
proof -
  have "frame cid s (s\<lparr>tx_count := tx_count s + 1\<rparr>)"
    by (simp add: frame_def)
  moreover have "frame cid (s\<lparr>tx_count := tx_count s + 1\<rparr>)
      (snd (snd (retry_loop env pre e sr cid rec 0 (s\<lparr>tx_count := tx_count s + 1\<rparr>))))"
    by (rule retry_loop_frame_aux)
  ultimately show ?thesis
    by (simp add: execute_def split: prod.splits) (metis frame_trans snd_conv)
qed

lemma frame_authorise_and_execute:
  "frame cid s (snd (authorise_and_execute env pre e sr cid s))"
proof -
  obtain o1 s1 where a1: "check_identity env e cid s = (o1, s1)"
    by (cases "check_identity env e cid s")
  obtain o2 s2 where a2: "check_signature_required env e sr s1 = (o2, s2)"
    by (cases "check_signature_required env e sr s1")
  obtain o3 s3 where a3: "check_signature env e sr cid (frontend_is_primary s1) s2 = (o3, s3)"
    by (cases "check_signature env e sr cid (frontend_is_primary s1) s2")
  obtain o4 s4 where a4: "check_jwt env e s3 = (o4, s4)"
    by (cases "check_jwt env e s3")
  obtain o5 s5 where a5: "dispatch env e cid (frontend_is_primary s1) (update_history env s4) = (o5, s5)"
    by (cases "dispatch env e cid (frontend_is_primary s1) (update_history env s4)")
  have f1: "frame cid s s1"
    using frame_check_identity [of cid s env e] a1 by simp
  have f2: "frame cid s s2"
    using frame_check_signature_required [of cid s1 env e sr] a2 f1 by (auto intro: frame_trans)
  have f3: "frame cid s s3"
    using frame_check_signature [of cid s2 env e sr "frontend_is_primary s1"] a3 f2
    by (auto intro: frame_trans)
  have f4: "frame cid s s4"
    using frame_check_jwt [of cid s3 env e] a4 f3 by (auto intro: frame_trans)
  have f5: "frame cid s s5"
    using frame_dispatch [of cid "update_history env s4" env e "frontend_is_primary s1"] a5 f4
      frame_update_history [of cid s4 env]
    by (auto intro: frame_trans)
  have f6: "frame cid s (snd (execute env pre e sr cid rec s5))" for rec
    using f5 frame_execute [of cid s5 env pre e sr rec] by (rule frame_trans)
  show ?thesis
    using a1 a2 a3 a4 a5 f1 f2 f3 f4 f5 f6
    by (simp add: authorise_and_execute_def Let_def split: option.splits sum.splits)
qed

subsection \<open>The retry loop\<close>

lemma attempt_Retry_iff:
  "fst (attempt env pre e sr cid rec s) = Retry \<longleftrightarrow> conflicts env pre e sr cid rec s"
  by (auto simp add: attempt_def conflicts_def handle_exception_def serialise_response_def Let_def split_beta
       split: prod.splits option.splits exn.splits sum.splits CommitSuccess.splits)

lemma retry_loop_Retry:
  "n < max_attempts \<Longrightarrow> fst (attempt env pre e sr cid rec s) = Retry \<Longrightarrow>
   retry_loop env pre e sr cid rec n s =
     retry_loop env pre e sr cid rec (Suc n) (snd (attempt env pre e sr cid rec s))"
  by (subst retry_loop.simps) (simp add: split_beta)

lemma retry_loop_Done:
  "n < max_attempts \<Longrightarrow> fst (attempt env pre e sr cid rec s) = Done out \<Longrightarrow>
   retry_loop env pre e sr cid rec n s = (out, Suc n, snd (attempt env pre e sr cid rec s))"
  by (subst retry_loop.simps) (simp add: split_beta)

lemma retry_loop_exhausted:
  "\<not> n < max_attempts \<Longrightarrow>
   retry_loop env pre e sr cid rec n s = (fst (attempts_exhausted s), n, snd (attempts_exhausted s))"
  by (subst retry_loop.simps) (simp add: split_beta)

lemma after_attempts_Suc:
  "after_attempts env pre e sr cid rec (Suc k) s =
     snd (attempt env pre e sr cid rec (after_attempts env pre e sr cid rec k s))"
  by (induction k arbitrary: s) simp_all

lemma retry_loop_retries:
  "(\<forall>j<k. fst (attempt env pre e sr cid rec (after_attempts env pre e sr cid rec j s)) = Retry) \<Longrightarrow>
   n + k \<le> max_attempts \<Longrightarrow>
   retry_loop env pre e sr cid rec n s =
     retry_loop env pre e sr cid rec (n + k) (after_attempts env pre e sr cid rec k s)"
proof (induction k arbitrary: n s)
  case 0
  then show ?case by simp
next
  case (Suc k)
  have first: "fst (attempt env pre e sr cid rec s) = Retry"
    using Suc.prems(1) [rule_format, of 0] by simp
  have rest: "\<forall>j<k. fst (attempt env pre e sr cid rec
                 (after_attempts env pre e sr cid rec j (snd (attempt env pre e sr cid rec s)))) = Retry"
    using Suc.prems(1) by (auto dest: spec [of _ "Suc j" for j])
  have "retry_loop env pre e sr cid rec n s =
        retry_loop env pre e sr cid rec (Suc n) (snd (attempt env pre e sr cid rec s))"
    using Suc.prems(2) first by (intro retry_loop_Retry) simp_all
  also have "\<dots> = retry_loop env pre e sr cid rec (Suc n + k)
        (after_attempts env pre e sr cid rec k (snd (attempt env pre e sr cid rec s)))"
    using Suc.prems(2) by (intro Suc.IH rest) simp
  finally show ?case by simp
qed

lemma retry_loop_attempts_le:
  "n \<le> max_attempts \<Longrightarrow> fst (snd (retry_loop env pre e sr cid rec n s)) \<le> max_attempts"
proof (induction env pre e sr cid rec n s rule: retry_loop.induct)
  case (1 env pre e sr cid rec n s)
  show ?case
  proof (cases "n < max_attempts")
    case False
    with "1.prems" show ?thesis by (simp add: retry_loop_exhausted)
  next
    case True
    show ?thesis
    proof (cases "fst (attempt env pre e sr cid rec s)")
      case Retry
      have "fst (snd (retry_loop env pre e sr cid rec (Suc n) (snd (attempt env pre e sr cid rec s)))) \<le> max_attempts"
        using "1.IH" [OF True _ Retry, of "snd (attempt env pre e sr cid rec s)"] True by simp
      then show ?thesis using True Retry by (simp add: retry_loop_Retry)
    next
      case (Done out)
      then show ?thesis using True by (simp add: retry_loop_Done)
    qed
  qed
qed

lemma attempt_commits:
  "count_list (trace (snd (attempt env pre e sr cid rec s))) Commit \<le> Suc (count_list (trace s) Commit)"
proof -
  obtain x s1 where r: "run_endpoint env pre e sr cid rec s = (x, s1)"
    by (cases "run_endpoint env pre e sr cid rec s")
  have t1: "count_list (trace s1) Commit = count_list (trace s) Commit"
    using r by (auto simp add: run_endpoint_def record_client_signature_def log_call_def Let_def
        split: option.splits prod.splits if_splits)
  have h: "count_list (trace (snd (handle_exception env e ex t))) Commit = count_list (trace t) Commit" for ex t
    by (simp add: handle_exception_def ctx_defs Let_def split: exn.splits)
  have c: "count_list (trace (snd (commit_ok env e t))) Commit = count_list (trace t) Commit" for t
    by (simp add: commit_ok_def ctx_defs Let_def split: option.splits)
  show ?thesis
    using r t1 h c
    by (simp add: attempt_def ctx_defs Let_def split_beta split: option.splits sum.splits CommitSuccess.splits)
qed

lemma retry_loop_commits:
  "n \<le> max_attempts \<Longrightarrow>
   count_list (trace (snd (snd (retry_loop env pre e sr cid rec n s)))) Commit
     \<le> count_list (trace s) Commit + (max_attempts - n)"
proof (induction env pre e sr cid rec n s rule: retry_loop.induct)
  case (1 env pre e sr cid rec n s)
  show ?case
  proof (cases "n < max_attempts")
    case False
    then show ?thesis by (simp add: retry_loop_exhausted attempts_exhausted_def ctx_defs)
  next
    case True
    note a = attempt_commits [of env pre e sr cid rec s]
    show ?thesis
    proof (cases "fst (attempt env pre e sr cid rec s)")
      case Retry
      have "count_list (trace (snd (snd (retry_loop env pre e sr cid rec (Suc n) (snd (attempt env pre e sr cid rec s)))))) Commit
          \<le> count_list (trace (snd (attempt env pre e sr cid rec s))) Commit + (max_attempts - Suc n)"
        using "1.IH" [OF True _ Retry, of "snd (attempt env pre e sr cid rec s)"] True by simp
      then show ?thesis using True Retry a by (simp add: retry_loop_Retry)
    next
      case (Done out)
      then show ?thesis using True a by (simp add: retry_loop_Done)
    qed
  qed
qed

lemma fmt_nat_max_attempts: "fmt_nat max_attempts = ''30''"
  by (simp add: max_attempts_def fmt_nat.simps)

text \<open>
  C1. The loop of the transactional executor makes at most 30 attempts (the final value
  of \<open>attempts\<close> is at most 30, and at most 30 commits are made); if each of the 30
  attempts ends in a conflict (\<open>CONFLICT\<close> from the commit, or a
  \<open>CompactedVersionConflict\<close>), the request ends with status 409 and the body
  "Transaction continued to conflict after 30 attempts.".
\<close>

theorem retry_loop_bounded:
  "fst (snd (retry_loop env pre e sr cid rec 0 s)) \<le> 30 \<and>
   count_list (trace (snd (snd (retry_loop env pre e sr cid rec 0 s)))) Commit
     \<le> count_list (trace s) Commit + 30 \<and>
   ((\<forall>j<30. conflicts env pre e sr cid rec (after_attempts env pre e sr cid rec j s)) \<longrightarrow>
      (\<exists>r s'. retry_loop env pre e sr cid rec 0 s = (Returned (Some r), 30, s') \<and>
         r_status r = 409 \<and>
         r_body r = ''Transaction continued to conflict after 30 attempts.''))"
proof (intro conjI impI)
  show "fst (snd (retry_loop env pre e sr cid rec 0 s)) \<le> 30"
    using retry_loop_attempts_le [of 0 env pre e sr cid rec s] by (simp add: max_attempts_def)
  show "count_list (trace (snd (snd (retry_loop env pre e sr cid rec 0 s)))) Commit
     \<le> count_list (trace s) Commit + 30"
    using retry_loop_commits [of 0 env pre e sr cid rec s] by (simp add: max_attempts_def)
next
  assume a: "\<forall>j<30. conflicts env pre e sr cid rec (after_attempts env pre e sr cid rec j s)"
  have "retry_loop env pre e sr cid rec 0 s =
        retry_loop env pre e sr cid rec (0 + 30) (after_attempts env pre e sr cid rec 30 s)"
    using a by (intro retry_loop_retries) (simp_all add: attempt_Retry_iff max_attempts_def)
  then show "\<exists>r s'. retry_loop env pre e sr cid rec 0 s = (Returned (Some r), 30, s') \<and>
         r_status r = 409 \<and>
         r_body r = ''Transaction continued to conflict after 30 attempts.''"
    by (simp add: retry_loop_exhausted max_attempts_def attempts_exhausted_def ctx_defs fmt_nat.simps)
qed

lemma always_conflict_conflicts:
  "conflicts always_conflict None e None cid False s"
  by (simp add: conflicts_def run_endpoint_def always_conflict_def test_env_def log_call_def)

theorem retry_loop_bounded_witness:
  "(\<forall>j. conflicts always_conflict None test_endpoint None 1 False
       (after_attempts always_conflict None test_endpoint None 1 False j test_system)) \<and>
   (\<exists>r s'. retry_loop always_conflict None test_endpoint None 1 False 0 test_system
        = (Returned (Some r), 30, s') \<and>
      r_status r = 409 \<and> r_body r = ''Transaction continued to conflict after 30 attempts.'')"
  using retry_loop_bounded [of always_conflict None test_endpoint None 1 False test_system]
  by (simp add: always_conflict_conflicts)

subsection \<open>The lifecycle gate\<close>

lemma is_open_update_consensus:
  "fst (is_open env (update_consensus env s)) = fst (is_open env s)"
  by (simp add: is_open_def update_consensus_def log_call_def Let_def split: option.splits)

lemma is_open_False: "\<not> fst (is_open env s) \<Longrightarrow> snd (is_open env s) = s"
  by (auto simp add: is_open_def split: option.splits if_splits)

lemma process_closed:
  "\<not> fst (is_open env s) \<Longrightarrow>
   process env s =
     serialise_response
       (set_response_body ''Frontend is not open.''
         (set_response_status HTTP_STATUS_NOT_FOUND (update_consensus env s)))"
proof -
  assume closed: "\<not> fst (is_open env s)"
  define s1 where "s1 = update_consensus env s"
  have "\<not> fst (is_open env s1)"
    using closed by (simp add: s1_def is_open_update_consensus)
  then have "is_open env s1 = (False, s1)"
    using is_open_False [of env s1] by (cases "is_open env s1") simp
  then show ?thesis
    by (simp add: process_def s1_def)
qed

text \<open>
  C2, amended. When \<open>is_open\<close> answers false (the frontend is not open, and the globally
  committed service record does not open it), \<open>process\<close> answers 404 with the body
  "Frontend is not open."; there is no KV write (the collaborators' state, the store and
  its transaction, is untouched), no endpoint lookup and no change of the metrics. The
  one side effect is that of \<open>update_consensus\<close>, which line 649 calls before \<open>is_open\<close>:
  when the consensus pointer of the store differs from the one the frontend holds, the
  member \<open>consensus\<close> is rebound and \<open>endpoints.set_consensus\<close> is called; when the
  pointers are equal nothing is called and the member is as before. Every other member
  is unchanged, no other call is logged, and the context changes in the status and the
  body of the response only.
\<close>

theorem process_not_open:
  "\<not> fst (is_open env s) \<Longrightarrow>
     (\<exists>r. fst (process env s) = Returned (Some r) \<and> r_status r = 404 \<and>
          r_body r = ''Frontend is not open.'') \<and>
     world (snd (process env s)) = world s \<and>
     metrics (snd (process env s)) = metrics s \<and>
     verifiers (snd (process env s)) = verifiers s \<and>
     tx_count (snd (process env s)) = tx_count s \<and>
     history (snd (process env s)) = history s \<and>
     is_open_flag (snd (process env s)) = is_open_flag s \<and>
     service_identity (snd (process env s)) = service_identity s \<and>
     client_signatures_name (snd (process env s)) = client_signatures_name s \<and>
     cmd_forwarder (snd (process env s)) = cmd_forwarder s \<and>
     request_storing_disabled (snd (process env s)) = request_storing_disabled s \<and>
     consensus (snd (process env s)) =
       (if map_option address (consensus s) = map_option address (get_consensus env (world s))
        then consensus s else get_consensus env (world s)) \<and>
     trace (snd (process env s)) =
       trace s @
         (if map_option address (consensus s) = map_option address (get_consensus env (world s))
          then [] else [SetConsensus]) \<and>
     ctx (snd (process env s)) =
       (ctx s)\<lparr>response_status := 404, response_body := ''Frontend is not open.''\<rparr>"
proof -
  assume closed: "\<not> fst (is_open env s)"
  show ?thesis
    unfolding process_closed [OF closed]
    by (simp add: update_consensus_def ctx_defs Let_def)
qed

theorem process_not_open_witness:
  "\<not> fst (is_open plain_env closed_system) \<and>
   (\<exists>r. fst (process plain_env closed_system) = Returned (Some r) \<and>
        r_status r = 404 \<and> r_body r = ''Frontend is not open.'') \<and>
   consensus (snd (process plain_env closed_system)) = None \<and>
   trace (snd (process plain_env closed_system)) = []"
  using process_not_open [of plain_env closed_system]
  by (simp add: is_open_def closed_system_def test_defs)

text \<open>
  C2 as stated fails: the frontend is not open and holds no consensus, the store has a
  consensus object; \<open>process\<close> answers 404, and before that \<open>update_consensus\<close> has
  rebound the member \<open>consensus\<close> and called \<open>endpoints.set_consensus\<close>.
\<close>

theorem not_open_rebinds_consensus:
  "\<not> fst (is_open consensus_env closed_system) \<and>
   consensus closed_system = None \<and>
   trace closed_system = [] \<and>
   consensus (snd (process consensus_env closed_system)) = Some cft_primary \<and>
   trace (snd (process consensus_env closed_system)) = [SetConsensus]"
proof -
  have closed: "\<not> fst (is_open consensus_env closed_system)"
    by (simp add: is_open_def consensus_env_def closed_system_def test_defs)
  show ?thesis
    unfolding process_closed [OF closed]
    using closed
    by (simp add: update_consensus_def ctx_defs Let_def consensus_env_def closed_system_def
          test_defs)
qed

subsection \<open>The verifier cache\<close>

lemma verifiers_process_command:
  "verifiers s \<subseteq>\<^sub>m verifiers (snd (process_command env pre caller_id s))"
proof (cases "find_endpoint env (world s) (ctx s)")
  case None
  then show ?thesis
    by (simp add: process_command_def endpoint_not_found_def ctx_defs Let_def)
next
  case (Some e)
  obtain cid s2 where o: "signed_request_caller_id env (get_signed_request (ctx s))
           caller_id ((log_call FindEndpoint s)\<lparr>metrics := (metrics s)(e := (metrics s e)\<lparr>calls := calls (metrics s e) + 1\<rparr>)\<rparr>) = (cid, s2)"
    by (cases "signed_request_caller_id env (get_signed_request (ctx s))
           caller_id ((log_call FindEndpoint s)\<lparr>metrics := (metrics s)(e := (metrics s e)\<lparr>calls := calls (metrics s e) + 1\<rparr>)\<rparr>)")
  have v2: "verifiers s2 = verifiers s"
    using o by (auto simp add: signed_request_caller_id_def log_call_def Let_def split: option.splits if_splits)
  have "frame cid s2 (snd (authorise_and_execute env pre e (get_signed_request (ctx s)) cid s2))"
    by (rule frame_authorise_and_execute)
  then have "verifiers s2 \<subseteq>\<^sub>m verifiers (snd (authorise_and_execute env pre e (get_signed_request (ctx s)) cid s2))"
    by (simp add: frame_def)
  then show ?thesis
    using Some o v2 by (simp add: process_command_def Let_def log_call_def)
qed

lemma verifiers_keep [simp]:
  "verifiers (log_call c s) = verifiers s"
  "verifiers (set_response_status st s) = verifiers s"
  "verifiers (set_response_body b s) = verifiers s"
  "verifiers (update_history env s) = verifiers s"
  "verifiers (snd (serialise_response s)) = verifiers s"
  by (simp_all add: ctx_defs update_history_def)

lemma verifiers_process:
  "verifiers s \<subseteq>\<^sub>m verifiers (snd (process env s))"
proof -
  obtain b s1 where io: "is_open env (update_consensus env s) = (b, s1)"
    by (cases "is_open env (update_consensus env s)")
  have v1: "verifiers s1 = verifiers s"
    using io by (auto simp add: is_open_def update_consensus_def log_call_def Let_def split: option.splits if_splits)
  have pc: "verifiers s \<subseteq>\<^sub>m verifiers (snd (process_command env None cid (log_call FindEndpoint s1)))" for cid
    using verifiers_process_command [of "log_call FindEndpoint s1" env None cid] v1
    by simp
  show ?thesis
  proof (cases b)
    case False
    then show ?thesis using io v1 by (simp add: process_def)
  next
    case True
    then show ?thesis
      using io v1 pc
      by (simp add: process_def Let_def split_beta split: option.splits)
  qed
qed

lemma verify_hit:
  "verifiers s cid = Some v \<Longrightarrow> client_signatures_name s \<noteq> [] \<Longrightarrow>
   verify_client_signature env cert cid sr s =
     (verify env v (req sr) (sig sr) (md sr), log_call (VerifyClientSignature cid) s)"
  by (simp add: verify_client_signature_def log_call_def Let_def)

lemma verify_no_table:
  "client_signatures_name s = [] \<Longrightarrow>
   verify_client_signature env cert cid sr s = (False, log_call (VerifyClientSignature cid) s)"
  by (simp add: verify_client_signature_def log_call_def Let_def)

lemma verify_stores:
  "client_signatures_name s \<noteq> [] \<Longrightarrow>
   verifiers (snd (verify_client_signature env cert cid sr s)) cid =
     Some (case verifiers s cid of None \<Rightarrow> make_verifier cert | Some v \<Rightarrow> v)"
  by (simp add: verify_client_signature_def log_call_def Let_def split: option.splits)

text \<open>
  C10. Let \<open>verify_client_signature\<close> have been called for \<open>cid\<close> with certificate
  \<open>cert0\<close>, and let \<open>s2\<close> be any later state (one that still has the entries of the
  cache after that call, as every later state has by the last two conjuncts). Then in
  \<open>s2\<close> the result for \<open>cid\<close> is the same whatever certificate is presented; when a
  signatures table is configured, the call leaves the cache as it is, and if the first
  call was a miss the result is the one of the verifier built from \<open>cert0\<close>. No entry
  is ever removed or replaced by \<open>process_command\<close> or \<open>process\<close>.
\<close>

theorem verifier_cache:
  "(verifiers (snd (verify_client_signature env cert0 cid sr0 s)) \<subseteq>\<^sub>m verifiers s2 \<longrightarrow>
      client_signatures_name s2 = client_signatures_name s \<longrightarrow>
        fst (verify_client_signature env cert1 cid sr s2) =
          fst (verify_client_signature env cert2 cid sr s2) \<and>
        (client_signatures_name s \<noteq> [] \<longrightarrow>
           verifiers (snd (verify_client_signature env cert1 cid sr s2)) = verifiers s2) \<and>
        (client_signatures_name s \<noteq> [] \<longrightarrow> verifiers s cid = None \<longrightarrow>
           fst (verify_client_signature env cert1 cid sr s2) =
             verify env (make_verifier cert0) (req sr) (sig sr) (md sr))) \<and>
   verifiers s \<subseteq>\<^sub>m verifiers (snd (process_command env pre caller_id s)) \<and>
   verifiers s \<subseteq>\<^sub>m verifiers (snd (process env s))"
proof -
  have later: "fst (verify_client_signature env cert1 cid sr s2) =
          fst (verify_client_signature env cert2 cid sr s2) \<and>
        (client_signatures_name s \<noteq> [] \<longrightarrow>
           verifiers (snd (verify_client_signature env cert1 cid sr s2)) = verifiers s2) \<and>
        (client_signatures_name s \<noteq> [] \<longrightarrow> verifiers s cid = None \<longrightarrow>
           fst (verify_client_signature env cert1 cid sr s2) =
             verify env (make_verifier cert0) (req sr) (sig sr) (md sr))"
    if le: "verifiers (snd (verify_client_signature env cert0 cid sr0 s)) \<subseteq>\<^sub>m verifiers s2"
      and nm: "client_signatures_name s2 = client_signatures_name s"
  proof (cases "client_signatures_name s = []")
    case True
    then show ?thesis using nm by (simp add: verify_no_table)
  next
    case False
    define v where "v = (case verifiers s cid of None \<Rightarrow> make_verifier cert0 | Some v \<Rightarrow> v)"
    have "verifiers (snd (verify_client_signature env cert0 cid sr0 s)) cid = Some v"
      using False by (simp add: verify_stores v_def)
    then have hit: "verifiers s2 cid = Some v"
      using le by (auto simp add: map_le_def dom_def)
    have ne2: "client_signatures_name s2 \<noteq> []"
      using False nm by simp
    show ?thesis
      using False by (simp add: verify_hit [OF hit ne2] v_def)
  qed
  show ?thesis
    using later verifiers_process_command [of s env pre caller_id] verifiers_process [of s env]
    by blast
qed

theorem verifier_cache_witness:
  "fst (verify_client_signature plain_env [2] 7 good_signature
          (snd (verify_client_signature plain_env [5] 7 bad_signature test_system))) =
   fst (verify_client_signature plain_env [3] 7 good_signature
          (snd (verify_client_signature plain_env [5] 7 bad_signature test_system))) \<and>
   fst (verify_client_signature plain_env [2] 7 good_signature
          (snd (verify_client_signature plain_env [5] 7 bad_signature test_system))) =
   verify plain_env (make_verifier [5]) (req good_signature) (sig good_signature)
     (md good_signature) \<and>
   verify plain_env (make_verifier [5]) (req good_signature) (sig good_signature)
     (md good_signature) \<and>
   \<not> verify plain_env (make_verifier [2]) (req good_signature) (sig good_signature)
       (md good_signature)"
proof -
  have h: "client_signatures_name test_system \<noteq> []" "verifiers test_system 7 = None"
    "client_signatures_name (snd (verify_client_signature plain_env [5] 7 bad_signature test_system)) =
     client_signatures_name test_system"
    by (simp_all add: verify_client_signature_def log_call_def Let_def test_defs)
  have v: "verify plain_env (make_verifier [5]) (req good_signature) (sig good_signature)
             (md good_signature)"
      "\<not> verify plain_env (make_verifier [2]) (req good_signature) (sig good_signature)
           (md good_signature)"
    by (simp_all add: test_defs)
  have r: "verifiers (snd (verify_client_signature plain_env [5] 7 bad_signature test_system)) \<subseteq>\<^sub>m
           verifiers (snd (verify_client_signature plain_env [5] 7 bad_signature test_system))"
    by (rule map_le_refl)
  show ?thesis
    using verifier_cache [of plain_env "[5]" 7 bad_signature test_system
      "snd (verify_client_signature plain_env [5] 7 bad_signature test_system)" "[2]"
      good_signature "[3]" None 7] h v r
    by blast
qed

subsection \<open>The caller id of a signed request\<close>

text \<open>
  C3, amended. For a request to a known endpoint that carries a signed request whose
  key id \<open>get_caller_id_by_digest\<close> resolves to \<open>cid \<noteq> INVALID_ID\<close>:
  \<open>process_command\<close> is lines 313-567 (the identity requirement first, then signature
  verification, dispatch and execution) run with caller id \<open>cid\<close> in a state where the
  session's \<open>caller_cert\<close> is the certificate \<open>resolve_caller_id\<close> finds for \<open>cid\<close> when
  it finds one, and is left as it is when it finds none; the caller id passed to
  \<open>process_command\<close> has no influence on the result; and every call logged that takes a
  caller id (verification, recording, endpoint execution, forwarding) is made with
  \<open>cid\<close>.
\<close>

theorem signed_request_identity:
  assumes "find_endpoint env (world s) (ctx s) = Some e"
    and "get_signed_request (ctx s) = Some sr"
    and "get_caller_id_by_digest env (world s) (key_id sr) = cid"
    and "cid \<noteq> INVALID_ID env"
  shows
    "process_command env pre caller_id s =
       authorise_and_execute env pre e (Some sr) cid
         ((log_call FindEndpoint s)
            \<lparr>metrics := (metrics s)(e := (metrics s e)\<lparr>calls := calls (metrics s e) + 1\<rparr>),
             ctx := (ctx s)\<lparr>session := (session (ctx s))
                      \<lparr>caller_cert :=
                         (case resolve_caller_id env cid (world s) of
                            None \<Rightarrow> caller_cert (session (ctx s))
                          | Some cert \<Rightarrow> cert)\<rparr>\<rparr>\<rparr>) \<and>
     process_command env pre caller_id s = process_command env pre caller_id' s \<and>
     (\<forall>c \<in> set (drop (length (trace s)) (trace (snd (process_command env pre caller_id s)))).
        call_caller c = None \<or> call_caller c = Some cid)"
proof -
  define s2 where "s2 = (log_call FindEndpoint s)
            \<lparr>metrics := (metrics s)(e := (metrics s e)\<lparr>calls := calls (metrics s e) + 1\<rparr>),
             ctx := (ctx s)\<lparr>session := (session (ctx s))
                      \<lparr>caller_cert :=
                         (case resolve_caller_id env cid (world s) of
                            None \<Rightarrow> caller_cert (session (ctx s))
                          | Some cert \<Rightarrow> cert)\<rparr>\<rparr>\<rparr>"
  have pc: "process_command env pre k s = authorise_and_execute env pre e (Some sr) cid s2" for k
    using assms
    by (simp add: process_command_def signed_request_caller_id_def log_call_def Let_def s2_def
          split: option.splits)
  have "frame cid s2 (snd (authorise_and_execute env pre e (Some sr) cid s2))"
    by (rule frame_authorise_and_execute)
  moreover have "trace s2 = trace s @ [FindEndpoint]"
    by (simp add: s2_def log_call_def)
  ultimately have "\<forall>c \<in> set (drop (length (trace s)) (trace (snd (authorise_and_execute env pre e (Some sr) cid s2)))).
        call_caller c = None \<or> call_caller c = Some cid"
    by (auto simp add: frame_def)
  then show ?thesis
    using pc unfolding s2_def [symmetric] by simp
qed

theorem signed_request_identity_witness:
  "process_command plain_env None 1 (signed_system good_signature) =
     process_command plain_env None 18446744073709551615 (signed_system good_signature) \<and>
   list_all (\<lambda>c. call_caller c = None \<or> call_caller c = Some 7)
     (drop (length (trace (signed_system good_signature)))
        (trace (snd (process_command plain_env None 1 (signed_system good_signature)))))"
proof -
  have h1: "find_endpoint plain_env (world (signed_system good_signature))
              (ctx (signed_system good_signature)) = Some test_endpoint"
    and h2: "get_signed_request (ctx (signed_system good_signature)) = Some good_signature"
    and h3: "get_caller_id_by_digest plain_env (world (signed_system good_signature))
               (key_id good_signature) = 7"
    and h4: "7 \<noteq> INVALID_ID plain_env"
    by (simp_all add: test_defs signed_system_def)
  show ?thesis
    unfolding list_all_iff
    using signed_request_identity [OF h1 h2 h3 h4, of None 1 18446744073709551615]
    by blast
qed

text \<open>
  C3 as stated fails: with the \<open>resolve_caller_id\<close> of the base class (lines 830-833,
  which finds no certificate) the key id resolves to caller 7, and lines 289-311 leave
  the session's \<open>caller_cert\<close>, and the whole state, as they were.
\<close>

theorem caller_cert_not_replaced:
  "get_caller_id_by_digest plain_env (world (signed_system good_signature)) (key_id good_signature) = 7 \<and>
   7 \<noteq> INVALID_ID plain_env \<and>
   resolve_caller_id plain_env 7 (world (signed_system good_signature)) = None \<and>
   signed_request_caller_id plain_env (Some good_signature) 1 (signed_system good_signature)
     = (7, signed_system good_signature)"
  by (simp add: signed_request_caller_id_def test_defs signed_system_def)

subsection \<open>Signature verification\<close>

text \<open>
  C4. At the signature gate of \<open>process_command\<close> (lines 343-367, reached by a request
  that passed the gates before it) \<open>verify_client_signature\<close> is called, once and with
  the caller id in force, if and only if a signed request is present, the request is not
  a create-request, and it is not a CFT-forwarded request (consensus of type CFT and
  \<open>session.original_caller\<close> present); when it is called and answers false, the
  response is 401 with the header
  \<open>WWW-Authenticate: Signature realm="Signed request access", headers="..."\<close>.
\<close>

theorem verify_invoked_iff:
  "trace (snd (check_signature env endpoint signed_request caller_id is_primary' s)) =
     trace s @
       (if signed_request \<noteq> None \<and> \<not> is_create_request (ctx s) \<and>
           \<not> ((\<exists>c. consensus s = Some c \<and> consensus_type c = CFT) \<and>
              original_caller (session (ctx s)) \<noteq> None)
        then [VerifyClientSignature caller_id] else []) \<and>
   (\<forall>sr. signed_request = Some sr \<longrightarrow> \<not> is_create_request (ctx s) \<longrightarrow>
      \<not> ((\<exists>c. consensus s = Some c \<and> consensus_type c = CFT) \<and>
         original_caller (session (ctx s)) \<noteq> None) \<longrightarrow>
      \<not> fst (verify_client_signature env (caller_cert (session (ctx s))) caller_id sr s) \<longrightarrow>
      (\<exists>r. fst (check_signature env endpoint signed_request caller_id is_primary' s)
              = Inl (Returned (Some r)) \<and>
           r_status r = 401 \<and>
           r_headers r WWW_AUTHENTICATE =
             Some (''Signature realm=\"Signed request access\", headers=\"''
                     @ join '' '' (required_signature_headers env) @ ''\"'')))"
  by (auto simp add: check_signature_def must_verify_signature_def verify_client_signature_def
        Let_def ctx_defs split: option.splits prod.splits if_splits)

theorem verify_invoked_iff_witness:
  "\<not> fst (verify_client_signature plain_env (caller_cert (session (ctx (signed_system bad_signature))))
             7 bad_signature (signed_system bad_signature)) \<and>
   trace (snd (check_signature plain_env test_endpoint (Some bad_signature) 7 True
                 (signed_system bad_signature))) = [VerifyClientSignature 7] \<and>
   (\<exists>r. fst (check_signature plain_env test_endpoint (Some bad_signature) 7 True
                (signed_system bad_signature)) = Inl (Returned (Some r)) \<and>
        r_status r = 401 \<and>
        r_headers r WWW_AUTHENTICATE =
          Some ''Signature realm=\"Signed request access\", headers=\"(request-target) digest\"'')"
  using verify_invoked_iff [of plain_env test_endpoint "Some bad_signature" 7 True
          "signed_system bad_signature"]
  by (simp add: verify_client_signature_def log_call_def test_defs signed_system_def)

subsection \<open>The committed transaction\<close>

lemma commit_ok_response:
  assumes "consensus s = Some c"
    and "cv = (if tx_commit_version env (world s) = 0 then tx_get_read_version env (world s)
               else tx_commit_version env (world s))"
    and "cv \<noteq> NoVersion env"
  shows "\<exists>r. fst (commit_ok env e s) = Returned (Some r) \<and> r_seqno r = Some cv \<and>
           r_view r = Some (tx_commit_term env (world s))"
proof -
  define s2 where
    "s2 = set_global_commit (get_committed_seqno c)
            (set_view (tx_commit_term env (world s)) (set_seqno cv s))"
  define s3 where
    "s3 = (if history s2 \<noteq> None \<and> is_primary c
           then log_call TryEmitSignature (s2\<lparr>world := try_emit_signature env (world s2)\<rparr>)
           else s2)"
  have c: "commit_ok env e s = serialise_response (update_metrics e s3)"
    using assms by (simp add: commit_ok_def Let_def s2_def s3_def)
  have "seqno (ctx s2) = Some cv" "view (ctx s2) = Some (tx_commit_term env (world s))"
    by (simp_all add: s2_def set_global_commit_def set_view_def set_seqno_def)
  then have "seqno (ctx s3) = Some cv" "view (ctx s3) = Some (tx_commit_term env (world s))"
    by (simp_all add: s3_def log_call_def)
  moreover have "ctx (update_metrics e s3) = ctx s3"
    by (simp add: update_metrics_def Let_def)
  ultimately show ?thesis
    unfolding c by (simp add: serialise_response_def)
qed

text \<open>
  C5, amended. When the endpoint has run and asks to apply its writes, the commit
  answers \<open>OK\<close>, a consensus is set and the version \<open>cv\<close> (the commit version when that
  is not zero, else the read version) is not \<open>kv::NoVersion\<close>, the iteration returns a
  response whose seqno is \<open>cv\<close> and whose view is the commit term; that response is what
  the loop, and so \<open>process_command\<close>, returns.
\<close>

theorem commit_ok_seqno:
  assumes "run_endpoint env pre e sr cid rec s = (None, s1)"
    and "should_apply_writes (ctx s1)"
    and "tx_commit env (world s1) = (Inr OK, w')"
    and "consensus s1 = Some c"
    and "cv = (if tx_commit_version env w' = 0 then tx_get_read_version env w'
               else tx_commit_version env w')"
    and "cv \<noteq> NoVersion env"
  shows "\<exists>r s'. attempt env pre e sr cid rec s = (Done (Returned (Some r)), s') \<and>
           r_seqno r = Some cv \<and> r_view r = Some (tx_commit_term env w') \<and>
           (\<forall>n<30. fst (retry_loop env pre e sr cid rec n s) = Returned (Some r))"
proof -
  define s2 where "s2 = log_call Commit (s1\<lparr>world := w'\<rparr>)"
  have w: "world s2 = w'" and c: "consensus s2 = Some c"
    using assms(4) by (simp_all add: s2_def log_call_def)
  have a: "attempt env pre e sr cid rec s = (Done (fst (commit_ok env e s2)), snd (commit_ok env e s2))"
    using assms(1-3) by (simp add: attempt_def Let_def split_beta s2_def)
  have cv: "cv = (if tx_commit_version env (world s2) = 0 then tx_get_read_version env (world s2)
               else tx_commit_version env (world s2))"
    using assms(5) by (simp only: w)
  obtain r where r: "fst (commit_ok env e s2) = Returned (Some r)" "r_seqno r = Some cv"
      "r_view r = Some (tx_commit_term env w')"
    using commit_ok_response [OF c cv assms(6), of e] w by auto
  have "fst (retry_loop env pre e sr cid rec n s) = Returned (Some r)" if "n < 30" for n
    using that a r(1) retry_loop_Done [of n env pre e sr cid rec s "fst (commit_ok env e s2)"]
    by (simp add: max_attempts_def)
  then show ?thesis using a r by auto
qed

theorem commit_ok_seqno_witness:
  "\<exists>r s'. attempt plain_env None test_endpoint None 1 False (test_system\<lparr>consensus := Some cft_primary\<rparr>)
            = (Done (Returned (Some r)), s') \<and>
          r_seqno r = Some 42 \<and> r_view r = Some 3"
proof -
  have h1: "run_endpoint plain_env None test_endpoint None 1 False (test_system\<lparr>consensus := Some cft_primary\<rparr>)
      = (None, snd (run_endpoint plain_env None test_endpoint None 1 False (test_system\<lparr>consensus := Some cft_primary\<rparr>)))"
    and h2: "should_apply_writes (ctx (snd (run_endpoint plain_env None test_endpoint None 1 False (test_system\<lparr>consensus := Some cft_primary\<rparr>))))"
    and h3: "tx_commit plain_env (world (snd (run_endpoint plain_env None test_endpoint None 1 False (test_system\<lparr>consensus := Some cft_primary\<rparr>)))) = (Inr OK, 1)"
    and h4: "consensus (snd (run_endpoint plain_env None test_endpoint None 1 False (test_system\<lparr>consensus := Some cft_primary\<rparr>))) = Some cft_primary"
    and h5: "(42::int) = (if tx_commit_version plain_env 1 = 0 then tx_get_read_version plain_env 1
               else tx_commit_version plain_env 1)"
    and h6: "42 \<noteq> NoVersion plain_env"
    by (simp_all add: run_endpoint_def log_call_def test_defs)
  show ?thesis
    using commit_ok_seqno [OF h1 h2 h3 h4 h5 h6] by (simp add: test_defs) blast
qed

text \<open>
  C5 as stated fails: without a consensus (\<open>consensus == nullptr\<close>, line 488) the commit
  answers \<open>OK\<close> with commit version 42 and the response carries no seqno and no view.
\<close>

theorem no_seqno_without_consensus:
  "consensus test_system = None \<and>
   fst (tx_commit plain_env 1) = Inr OK \<and> tx_commit_version plain_env 1 = 42 \<and>
   fst (attempt plain_env None test_endpoint None 1 False test_system) =
     Done (Returned (Some \<lparr>r_status = 200, r_headers = Map.empty, r_body = [], r_seqno = None,
                            r_view = None, r_global_commit = None\<rparr>))"
  by (simp add: attempt_def run_endpoint_def commit_ok_def ctx_defs test_defs Let_def)

subsection \<open>Dispatch\<close>

text \<open>
  C6, amended. On a replica that is not primary, under BFT consensus, a request whose
  \<open>execute_on_node\<close> flag is not set and whose endpoint has \<open>forwarding_required = Always\<close>
  is forwarded or redirected (with \<open>session.is_forwarding\<close> set), whatever
  \<open>session.is_forwarding\<close> was.
\<close>

theorem bft_always_forwards:
  assumes "consensus s = Some c" and "consensus_type c = BFT"
    and "forwarding_required (properties e) = Always"
    and "\<not> execute_on_node (ctx s)"
  shows "dispatch env e cid False s =
           (Some (fst (forward_or_redirect_json env e cid
                    (s\<lparr>ctx := (ctx s)\<lparr>session := (session (ctx s))\<lparr>is_forwarding := True\<rparr>\<rparr>\<rparr>))),
            snd (forward_or_redirect_json env e cid
                    (s\<lparr>ctx := (ctx s)\<lparr>session := (session (ctx s))\<lparr>is_forwarding := True\<rparr>\<rparr>\<rparr>))) \<and>
         dispatch env e cid False
           (s\<lparr>ctx := (ctx s)\<lparr>session := (session (ctx s))\<lparr>is_forwarding := b\<rparr>\<rparr>\<rparr>) =
         dispatch env e cid False s"
  using assms by (simp add: dispatch_def forward_request_def split_beta)

theorem bft_always_forwards_witness:
  "fst (dispatch plain_env test_endpoint 1 False
         (test_system\<lparr>consensus := Some bft_backup, cmd_forwarder := True\<rparr>)) = Some (Returned None)"
proof -
  have h: "consensus (test_system\<lparr>consensus := Some bft_backup, cmd_forwarder := True\<rparr>) = Some bft_backup"
      "consensus_type bft_backup = BFT"
      "forwarding_required (properties test_endpoint) = Always"
      "\<not> execute_on_node (ctx (test_system\<lparr>consensus := Some bft_backup, cmd_forwarder := True\<rparr>))"
    by (simp_all add: test_defs bft_backup_def)
  show ?thesis
    using bft_always_forwards [OF h, of plain_env 1]
    by (simp add: forward_or_redirect_json_def get_cert_to_forward_def log_call_def test_defs bft_backup_def)
qed

text \<open>
  C6 as stated fails: with \<open>execute_on_node\<close> set, the condition of lines 413-416 is
  false on a BFT backup, and the request is executed on this node (\<open>dispatch\<close> answers
  \<open>None\<close> and leaves the state as it is) although the endpoint has
  \<open>forwarding_required = Always\<close>.
\<close>

theorem bft_execute_on_node_runs_locally:
  "consensus_type bft_backup = BFT \<and> \<not> is_primary bft_backup \<and>
   forwarding_required (properties test_endpoint) = Always \<and>
   \<not> frontend_is_primary
       (test_system\<lparr>consensus := Some bft_backup, cmd_forwarder := True,
                     ctx := test_ctx\<lparr>execute_on_node := True\<rparr>\<rparr>) \<and>
   dispatch plain_env test_endpoint 1 False
     (test_system\<lparr>consensus := Some bft_backup, cmd_forwarder := True,
                   ctx := test_ctx\<lparr>execute_on_node := True\<rparr>\<rparr>) =
     (None, test_system\<lparr>consensus := Some bft_backup, cmd_forwarder := True,
                   ctx := test_ctx\<lparr>execute_on_node := True\<rparr>\<rparr>)"
  by (simp add: dispatch_def frontend_is_primary_def test_defs bft_backup_def)

subsection \<open>Forwarding and redirection\<close>

text \<open>
  C7, amended. In \<open>forward_or_redirect_json\<close>: with a forwarder and a request that did
  not arrive forwarded, a \<open>forward_command\<close> that succeeds gives no response
  (\<open>std::nullopt\<close>), and when no primary is known the response is 500 with the body
  "RPC could not be forwarded to unknown primary."; for a request that arrived forwarded,
  or without a forwarder, the status is 307, and the \<open>Location\<close> header is
  "pubhost:rpcport" of the primary when the nodes table has an entry for the primary;
  when it has none (or no consensus is set) no \<open>Location\<close> header is written.
\<close>

theorem forward_or_redirect:
  "(cmd_forwarder s \<longrightarrow> original_caller (session (ctx s)) = None \<longrightarrow>
      (\<forall>c. consensus s = Some c \<longrightarrow> primary c \<noteq> NoNode env \<longrightarrow>
         fst (forward_command env (ctx s) (primary c) (active_nodes c) caller_id
                (get_cert_to_forward env (Some endpoint) s) (world s)) \<longrightarrow>
         fst (forward_or_redirect_json env endpoint caller_id s) = Returned None) \<and>
      (consensus s = None \<or> (\<exists>c. consensus s = Some c \<and> primary c = NoNode env) \<longrightarrow>
         (\<exists>r. fst (forward_or_redirect_json env endpoint caller_id s) = Returned (Some r) \<and>
              r_status r = 500 \<and>
              r_body r = ''RPC could not be forwarded to unknown primary.''))) \<and>
   (\<not> cmd_forwarder s \<or> original_caller (session (ctx s)) \<noteq> None \<longrightarrow>
      (\<exists>r. fst (forward_or_redirect_json env endpoint caller_id s) = Returned (Some r) \<and>
           r_status r = 307 \<and>
           r_headers r LOCATION =
             (case consensus s of
                None \<Rightarrow> response_headers (ctx s) LOCATION
              | Some c \<Rightarrow>
                  (case nodes_get env (world s) (primary c) of
                     None \<Rightarrow> response_headers (ctx s) LOCATION
                   | Some info \<Rightarrow> Some (pubhost info @ '':'' @ rpcport info)))))"
  by (auto simp add: forward_or_redirect_json_def could_not_forward_def ctx_defs Let_def
        split: prod.splits option.splits)

theorem forward_or_redirect_witness:
  "(\<exists>r. fst (forward_or_redirect_json plain_env test_endpoint 1 (forwarded_system 0))
          = Returned (Some r) \<and>
        r_status r = 307 \<and> r_headers r LOCATION = Some ''10.0.0.1:8080'')"
  using forward_or_redirect [of "forwarded_system 0" plain_env 1 test_endpoint]
  by (simp add: forwarded_system_def test_defs bft_backup_def)

text \<open>
  C7 as stated fails: a forwarded request on a backup whose primary, node 5, is not in
  the nodes table is answered 307 without a \<open>Location\<close> header (lines 156-163).
\<close>

theorem redirect_without_location:
  "original_caller (session (ctx (forwarded_system 5))) \<noteq> None \<and>
   consensus (forwarded_system 5) = Some (bft_backup\<lparr>primary := 5\<rparr>) \<and>
   nodes_get plain_env (world (forwarded_system 5)) 5 = None \<and>
   fst (forward_or_redirect_json plain_env test_endpoint 1 (forwarded_system 5)) =
     Returned (Some \<lparr>r_status = 307, r_headers = Map.empty, r_body = [], r_seqno = None,
                     r_view = None, r_global_commit = None\<rparr>)"
  by (simp add: forward_or_redirect_json_def ctx_defs forwarded_system_def test_defs bft_backup_def
        Let_def)

subsection \<open>Exceptions in the executor\<close>

lemma handle_exception_cases:
  "handle_exception env e ex t =
      (case ex of
         CompactedVersionConflict what \<Rightarrow>
           (Retry, log_call TxReset (t\<lparr>world := tx_reset env (world t)\<rparr>))
       | RpcException st what \<Rightarrow>
           (Done (Returned (Some \<lparr>r_status = st, r_headers = response_headers (ctx t),
               r_body = what, r_seqno = seqno (ctx t), r_view = view (ctx t),
               r_global_commit = global_commit (ctx t)\<rparr>)),
            update_metrics e (set_response_body what (set_response_status st t)))
       | JsonParseError p what \<Rightarrow>
           (Done (Returned (Some \<lparr>r_status = 400, r_headers = response_headers (ctx t),
               r_body = ''At '' @ p @ '':'' @ [CHR 0x0A, CHR 0x09] @ what,
               r_seqno = seqno (ctx t), r_view = view (ctx t),
               r_global_commit = global_commit (ctx t)\<rparr>)),
            update_metrics e
              (set_response_body (''At '' @ p @ '':'' @ [CHR 0x0A, CHR 0x09] @ what)
                (set_response_status 400 t)))
       | KvSerialiserException what \<Rightarrow> (Done Aborted, t)
       | StdException what \<Rightarrow>
           (Done (Returned (Some \<lparr>r_status = 500, r_headers = response_headers (ctx t),
               r_body = what, r_seqno = seqno (ctx t), r_view = view (ctx t),
               r_global_commit = global_commit (ctx t)\<rparr>)),
            update_metrics e (set_response_body what (set_response_status 500 t))))"
  by (simp add: handle_exception_def ctx_defs Let_def split: exn.splits)

lemma attempt_thrown:
  "thrown env pre e sr cid rec s = Some ex \<Longrightarrow>
   attempt env pre e sr cid rec s =
     handle_exception env e ex (thrown_in env pre e sr cid rec s)"
proof -
  assume th: "thrown env pre e sr cid rec s = Some ex"
  obtain x s1 where r: "run_endpoint env pre e sr cid rec s = (x, s1)"
    by (cases "run_endpoint env pre e sr cid rec s")
  obtain res w' where c: "tx_commit env (world s1) = (res, w')"
    by (cases "tx_commit env (world s1)")
  show ?thesis
  proof (cases x)
    case (Some x')
    then show ?thesis
      using th r by (simp add: attempt_def thrown_def thrown_in_def)
  next
    case None
    then show ?thesis
      using th r c
      by (simp add: attempt_def thrown_def thrown_in_def Let_def split: if_splits sum.splits)
  qed
qed

lemma attempt_not_thrown:
  "thrown env pre e sr cid rec s = None \<Longrightarrow> fst (attempt env pre e sr cid rec s) \<noteq> Done Aborted"
proof -
  assume th: "thrown env pre e sr cid rec s = None"
  obtain x s1 where r: "run_endpoint env pre e sr cid rec s = (x, s1)"
    by (cases "run_endpoint env pre e sr cid rec s")
  obtain res w' where c: "tx_commit env (world s1) = (res, w')"
    by (cases "tx_commit env (world s1)")
  have ok: "fst (commit_ok env e t) \<noteq> Aborted" for t
    by (simp add: commit_ok_def serialise_response_def Let_def)
  show ?thesis
    using th r c ok
    by (auto simp add: attempt_def thrown_def Let_def serialise_response_def split_beta
          split: option.splits sum.splits CommitSuccess.splits if_splits)
qed

lemma attempt_aborted:
  "fst (attempt env pre e sr cid rec s) = Done Aborted \<Longrightarrow>
   \<exists>w. thrown env pre e sr cid rec s = Some (KvSerialiserException w)"
proof (cases "thrown env pre e sr cid rec s")
  case None
  assume "fst (attempt env pre e sr cid rec s) = Done Aborted"
  with None attempt_not_thrown [of env pre e sr cid rec s] show ?thesis by simp
next
  case (Some ex)
  assume ab: "fst (attempt env pre e sr cid rec s) = Done Aborted"
  have "fst (attempt env pre e sr cid rec s) =
      fst (handle_exception env e ex (thrown_in env pre e sr cid rec s))"
    using attempt_thrown [OF Some] by simp
  with ab Some show ?thesis
    by (cases ex) (simp_all add: handle_exception_cases)
qed

lemma retry_loop_aborted:
  "fst (retry_loop env pre e sr cid rec n s) = Aborted \<Longrightarrow>
   \<exists>k. fst (attempt env pre e sr cid rec (after_attempts env pre e sr cid rec k s)) = Done Aborted"
proof (induction env pre e sr cid rec n s rule: retry_loop.induct)
  case (1 env pre e sr cid rec n s)
  show ?case
  proof (cases "n < max_attempts")
    case False
    with "1.prems" show ?thesis
      by (simp add: retry_loop_exhausted attempts_exhausted_def serialise_response_def)
  next
    case True
    show ?thesis
    proof (cases "fst (attempt env pre e sr cid rec s)")
      case Retry
      have "fst (retry_loop env pre e sr cid rec (Suc n) (snd (attempt env pre e sr cid rec s)))
              = Aborted"
        using "1.prems" True Retry by (simp add: retry_loop_Retry)
      then obtain k where
        "fst (attempt env pre e sr cid rec
               (after_attempts env pre e sr cid rec k (snd (attempt env pre e sr cid rec s))))
           = Done Aborted"
        using "1.IH" [OF True _ Retry, of "snd (attempt env pre e sr cid rec s)"] by auto
      then have "fst (attempt env pre e sr cid rec (after_attempts env pre e sr cid rec (Suc k) s))
           = Done Aborted"
        by simp
      then show ?thesis by blast
    next
      case (Done out)
      then have "out = Aborted"
        using "1.prems" True by (simp add: retry_loop_Done)
      with Done have "fst (attempt env pre e sr cid rec (after_attempts env pre e sr cid rec 0 s))
           = Done Aborted"
        by simp
      then show ?thesis by blast
    qed
  qed
qed

text \<open>
  C9, amended. In one iteration of the loop, for the exception that the endpoint (or
  \<open>pre_exec\<close>, or the recording) or the commit throws: \<open>KvSerialiserException\<close> aborts
  the process, no response is produced and the loop ends there; an iteration, and the
  loop, abort on that exception only; \<open>CompactedVersionConflict\<close> resets the transaction
  (\<open>tx.reset()\<close> on the state in which it is caught) and the loop goes round again from
  that state; every other exception ends the request, and only the request, with the
  response the loop returns: \<open>RpcException\<close> with its status and message,
  \<open>JsonParseError\<close> with 400, any other with 500 and the message of the exception.
\<close>

theorem exception_outcomes:
  "(thrown env pre e sr cid rec s = Some (KvSerialiserException w) \<longrightarrow>
      fst (attempt env pre e sr cid rec s) = Done Aborted \<and>
      (\<forall>n<30. fst (retry_loop env pre e sr cid rec n s) = Aborted)) \<and>
   (fst (attempt env pre e sr cid rec s) = Done Aborted \<longrightarrow>
      (\<exists>w. thrown env pre e sr cid rec s = Some (KvSerialiserException w))) \<and>
   (fst (retry_loop env pre e sr cid rec n s) = Aborted \<longrightarrow>
      (\<exists>k w. thrown env pre e sr cid rec (after_attempts env pre e sr cid rec k s)
                = Some (KvSerialiserException w))) \<and>
   (thrown env pre e sr cid rec s = Some (CompactedVersionConflict w) \<longrightarrow>
      attempt env pre e sr cid rec s =
        (Retry,
         log_call TxReset
           ((thrown_in env pre e sr cid rec s)
              \<lparr>world := tx_reset env (world (thrown_in env pre e sr cid rec s))\<rparr>)) \<and>
      (\<forall>n<30. retry_loop env pre e sr cid rec n s =
         retry_loop env pre e sr cid rec (Suc n)
           (log_call TxReset
              ((thrown_in env pre e sr cid rec s)
                 \<lparr>world := tx_reset env (world (thrown_in env pre e sr cid rec s))\<rparr>)))) \<and>
   (thrown env pre e sr cid rec s = Some (RpcException status msg) \<longrightarrow>
      (\<exists>r. fst (attempt env pre e sr cid rec s) = Done (Returned (Some r)) \<and>
           r_status r = status \<and> r_body r = msg \<and>
           (\<forall>n<30. fst (retry_loop env pre e sr cid rec n s) = Returned (Some r)))) \<and>
   (thrown env pre e sr cid rec s = Some (JsonParseError pointer msg) \<longrightarrow>
      (\<exists>r. fst (attempt env pre e sr cid rec s) = Done (Returned (Some r)) \<and>
           r_status r = 400 \<and>
           r_body r = ''At '' @ pointer @ '':'' @ [CHR 0x0A, CHR 0x09] @ msg \<and>
           (\<forall>n<30. fst (retry_loop env pre e sr cid rec n s) = Returned (Some r)))) \<and>
   (thrown env pre e sr cid rec s = Some (StdException msg) \<longrightarrow>
      (\<exists>r. fst (attempt env pre e sr cid rec s) = Done (Returned (Some r)) \<and>
           r_status r = 500 \<and> r_body r = msg \<and>
           (\<forall>n<30. fst (retry_loop env pre e sr cid rec n s) = Returned (Some r))))"
proof -
  note a = attempt_thrown [of env pre e sr cid rec s]
  have fin: "fst (retry_loop env pre e sr cid rec n s) = out"
    if "fst (attempt env pre e sr cid rec s) = Done out" and "n < 30" for n out
    using retry_loop_Done [of n env pre e sr cid rec s out] that
    by (simp add: max_attempts_def)
  have kv: "fst (attempt env pre e sr cid rec s) = Done Aborted"
    if "thrown env pre e sr cid rec s = Some (KvSerialiserException w)"
    using a [OF that] by (simp add: handle_exception_cases)
  have only: "\<exists>k w. thrown env pre e sr cid rec (after_attempts env pre e sr cid rec k s)
                = Some (KvSerialiserException w)"
    if "fst (retry_loop env pre e sr cid rec n s) = Aborted"
    using retry_loop_aborted [OF that] attempt_aborted by blast
  have cvc: "attempt env pre e sr cid rec s =
        (Retry,
         log_call TxReset
           ((thrown_in env pre e sr cid rec s)
              \<lparr>world := tx_reset env (world (thrown_in env pre e sr cid rec s))\<rparr>))"
    if "thrown env pre e sr cid rec s = Some (CompactedVersionConflict w)"
    using a [OF that] by (simp add: handle_exception_cases)
  have again: "retry_loop env pre e sr cid rec n s =
         retry_loop env pre e sr cid rec (Suc n)
           (log_call TxReset
              ((thrown_in env pre e sr cid rec s)
                 \<lparr>world := tx_reset env (world (thrown_in env pre e sr cid rec s))\<rparr>))"
    if "thrown env pre e sr cid rec s = Some (CompactedVersionConflict w)" and "n < 30" for n
    using retry_loop_Retry [of n env pre e sr cid rec s] cvc [OF that(1)] that(2)
    by (simp add: max_attempts_def)
  have rpc: "\<exists>r. fst (attempt env pre e sr cid rec s) = Done (Returned (Some r)) \<and>
           r_status r = status \<and> r_body r = msg"
    if "thrown env pre e sr cid rec s = Some (RpcException status msg)"
    using a [OF that] by (simp add: handle_exception_cases)
  have json: "\<exists>r. fst (attempt env pre e sr cid rec s) = Done (Returned (Some r)) \<and>
           r_status r = 400 \<and>
           r_body r = ''At '' @ pointer @ '':'' @ [CHR 0x0A, CHR 0x09] @ msg"
    if "thrown env pre e sr cid rec s = Some (JsonParseError pointer msg)"
    using a [OF that] by (simp add: handle_exception_cases)
  have std: "\<exists>r. fst (attempt env pre e sr cid rec s) = Done (Returned (Some r)) \<and>
           r_status r = 500 \<and> r_body r = msg"
    if "thrown env pre e sr cid rec s = Some (StdException msg)"
    using a [OF that] by (simp add: handle_exception_cases)
  show ?thesis
    using kv fin only attempt_aborted [of env pre e sr cid rec s] cvc again rpc json std
    by (intro conjI impI) blast+
qed

theorem exception_outcomes_witness:
  "thrown (commit_throws (KvSerialiserException ''kv'')) None test_endpoint None 1 False test_system
     = Some (KvSerialiserException ''kv'') \<and>
   fst (attempt (commit_throws (KvSerialiserException ''kv'')) None test_endpoint None 1 False test_system)
     = Done Aborted \<and>
   thrown (commit_throws (RpcException 403 ''no'')) None test_endpoint None 1 False test_system
     = Some (RpcException 403 ''no'') \<and>
   (\<exists>r. fst (attempt (commit_throws (RpcException 403 ''no'')) None test_endpoint None 1 False test_system)
          = Done (Returned (Some r)) \<and> r_status r = 403 \<and> r_body r = ''no'') \<and>
   thrown (commit_throws (CompactedVersionConflict ''c'')) None test_endpoint None 1 False test_system
     = Some (CompactedVersionConflict ''c'') \<and>
   fst (attempt (commit_throws (CompactedVersionConflict ''c'')) None test_endpoint None 1 False
          test_system) = Retry \<and>
   last (trace (snd (attempt (commit_throws (CompactedVersionConflict ''c'')) None test_endpoint
                       None 1 False test_system))) = TxReset"
proof -
  have t: "thrown (commit_throws x) None test_endpoint None 1 False test_system = Some x" for x
    by (simp add: thrown_def run_endpoint_def log_call_def commit_throws_def test_defs)
  have k1: "fst (attempt (commit_throws (KvSerialiserException ''kv'')) None test_endpoint None 1 False
                 test_system) = Done Aborted"
    using exception_outcomes [where env = "commit_throws (KvSerialiserException ''kv'')"
            and pre = None and e = test_endpoint and sr = None and cid = 1 and rec = False
            and s = test_system and w = "''kv''"] t
    by blast
  have k2: "\<exists>r. fst (attempt (commit_throws (RpcException 403 ''no'')) None test_endpoint None 1 False
                     test_system) = Done (Returned (Some r)) \<and> r_status r = 403 \<and> r_body r = ''no''"
    using exception_outcomes [where env = "commit_throws (RpcException 403 ''no'')"
            and pre = None and e = test_endpoint and sr = None and cid = 1 and rec = False
            and s = test_system and status = 403 and msg = "''no''"] t
    by blast
  have "\<exists>t. attempt (commit_throws (CompactedVersionConflict ''c'')) None test_endpoint None 1
                   False test_system = (Retry, log_call TxReset t)"
    using exception_outcomes [where env = "commit_throws (CompactedVersionConflict ''c'')"
            and pre = None and e = test_endpoint and sr = None and cid = 1 and rec = False
            and s = test_system and w = "''c''"] t
    by blast
  then have k3: "fst (attempt (commit_throws (CompactedVersionConflict ''c'')) None test_endpoint None 1
                   False test_system) = Retry"
      "last (trace (snd (attempt (commit_throws (CompactedVersionConflict ''c'')) None test_endpoint
                       None 1 False test_system))) = TxReset"
    by (auto simp add: log_call_def)
  show ?thesis
    using t k1 k2 k3 by blast
qed

text \<open>
  C9 as stated fails: the endpoint throws \<open>CompactedVersionConflict\<close> in the first
  iteration; the exception does not end the request, the second iteration succeeds and
  the response is 200, not 500 with the message of the exception.
\<close>

theorem compaction_conflict_is_retried:
  "thrown conflict_once None test_endpoint None 1 False test_system
     = Some (CompactedVersionConflict ''compacted'') \<and>
   fst (attempt conflict_once None test_endpoint None 1 False test_system) = Retry \<and>
   fst (retry_loop conflict_once None test_endpoint None 1 False 0 test_system) =
     Returned (Some \<lparr>r_status = 200, r_headers = Map.empty, r_body = [], r_seqno = None,
                     r_view = None, r_global_commit = None\<rparr>)"
proof -
  have t: "thrown conflict_once None test_endpoint None 1 False test_system
     = Some (CompactedVersionConflict ''compacted'')"
    by (simp add: thrown_def run_endpoint_def log_call_def conflict_once_def test_defs)
  have a1: "attempt conflict_once None test_endpoint None 1 False test_system =
      (Retry, test_system\<lparr>ctx := test_ctx\<lparr>should_apply_writes := True, response_status := 200\<rparr>,
                          world := 1, trace := [ExecuteEndpoint 1, TxReset]\<rparr>)"
    by (simp add: attempt_def run_endpoint_def handle_exception_def log_call_def conflict_once_def
          test_defs)
  have a2: "fst (attempt conflict_once None test_endpoint None 1 False
       (test_system\<lparr>ctx := test_ctx\<lparr>should_apply_writes := True, response_status := 200\<rparr>,
                          world := 1, trace := [ExecuteEndpoint 1, TxReset]\<rparr>)) =
     Done (Returned (Some \<lparr>r_status = 200, r_headers = Map.empty, r_body = [], r_seqno = None,
                     r_view = None, r_global_commit = None\<rparr>))"
    by (simp add: attempt_def run_endpoint_def commit_ok_def ctx_defs conflict_once_def
          test_defs Let_def)
  have "retry_loop conflict_once None test_endpoint None 1 False 0 test_system =
        retry_loop conflict_once None test_endpoint None 1 False (Suc 0)
          (test_system\<lparr>ctx := test_ctx\<lparr>should_apply_writes := True, response_status := 200\<rparr>,
                          world := 1, trace := [ExecuteEndpoint 1, TxReset]\<rparr>)"
    using retry_loop_Retry [of 0 conflict_once None test_endpoint None 1 False test_system] a1
    by (simp add: max_attempts_def)
  then show ?thesis
    using t a1 retry_loop_Done [OF _ a2, of "Suc 0"] by (simp add: max_attempts_def)
qed

subsection \<open>Metrics\<close>

lemma process_command_execute_path:
  assumes "find_endpoint env (world s) (ctx s) = Some e"
    and "get_signed_request (ctx s) = None"
    and "original_caller (session (ctx s)) = None"
    and "caller_id \<noteq> INVALID_ID env"
    and "\<not> require_client_signature (properties e)"
    and "\<not> require_jwt_authentication (properties e)"
    and "consensus s = None"
  shows "process_command env pre caller_id s =
           execute env pre e None caller_id False
             (update_history env
               ((log_call FindEndpoint s)
                  \<lparr>metrics := (metrics s)(e := (metrics s e)\<lparr>calls := calls (metrics s e) + 1\<rparr>)\<rparr>))"
  using assms
  by (simp add: process_command_def signed_request_caller_id_def authorise_and_execute_def
        check_identity_def check_signature_required_def check_signature_def check_jwt_def
        dispatch_def frontend_is_primary_def update_history_def log_call_def Let_def)

lemma attempt_conflict_metrics:
  "conflicts env pre e sr cid rec s \<Longrightarrow> metrics (snd (attempt env pre e sr cid rec s)) = metrics s"
proof -
  assume cf: "conflicts env pre e sr cid rec s"
  obtain x s1 where r: "run_endpoint env pre e sr cid rec s = (x, s1)"
    by (cases "run_endpoint env pre e sr cid rec s")
  have m1: "metrics s1 = metrics s"
    using r by (auto simp add: run_endpoint_def record_client_signature_def log_call_def Let_def
        split: option.splits prod.splits if_splits)
  show ?thesis
    using cf r m1
    by (auto simp add: conflicts_def attempt_def handle_exception_def log_call_def Let_def split_beta
          split: option.splits exn.splits sum.splits CommitSuccess.splits)
qed

lemma after_attempts_metrics:
  "(\<forall>j<k. conflicts env pre e sr cid rec (after_attempts env pre e sr cid rec j s)) \<Longrightarrow>
   metrics (after_attempts env pre e sr cid rec k s) = metrics s"
proof (induction k)
  case 0
  then show ?case by simp
next
  case (Suc k)
  then have "metrics (after_attempts env pre e sr cid rec k s) = metrics s"
    by simp
  moreover have "conflicts env pre e sr cid rec (after_attempts env pre e sr cid rec k s)"
    using Suc.prems by simp
  ultimately show ?case
    by (simp only: after_attempts_Suc attempt_conflict_metrics)
qed

lemma retry_loop_all_conflicts:
  assumes "\<forall>j<30. conflicts env pre e sr cid rec (after_attempts env pre e sr cid rec j s)"
  shows "\<exists>r s'. retry_loop env pre e sr cid rec 0 s = (Returned (Some r), 30, s') \<and>
           r_status r = 409 \<and> metrics s' = metrics s"
proof -
  have "retry_loop env pre e sr cid rec 0 s =
        retry_loop env pre e sr cid rec (0 + 30) (after_attempts env pre e sr cid rec 30 s)"
    using assms by (intro retry_loop_retries) (simp_all add: attempt_Retry_iff max_attempts_def)
  moreover have "metrics (after_attempts env pre e sr cid rec 30 s) = metrics s"
    using assms by (rule after_attempts_metrics)
  ultimately show ?thesis
    by (simp add: retry_loop_exhausted max_attempts_def attempts_exhausted_def ctx_defs)
qed

text \<open>
  The counters on every exit of \<open>process_command\<close>. When no endpoint is found the
  metrics are untouched. When one is found, \<open>calls\<close> is incremented once and the response
  is counted once by its status class (\<open>errors\<close> for 4xx, \<open>failures\<close> for 5xx, nothing
  otherwise and nothing when there is no response), unless each of the 30 attempts of
  the loop ended in a conflict: then the result is the one of lines 564-567, with status
  409 and the metrics as they were after \<open>calls++\<close> (\<open>exhausted_metrics\<close>).
\<close>

lemma accounted_simps [simp]:
  "accounted e m (Returned None) s = (metrics s = m)"
  "accounted e m Aborted s = (metrics s = m)"
  "accounted e m (Threw x) s = (metrics s = m)"
  by (simp_all add: accounted_def)

lemma accounted_exit:
  "metrics s = m \<Longrightarrow>
   accounted e m (fst (serialise_response (update_metrics e s)))
     (snd (serialise_response (update_metrics e s)))"
  by (simp add: accounted_def account_def serialise_response_def update_metrics_def Let_def)

lemma metrics_setters [simp]:
  "metrics (set_response_status st s) = metrics s"
  "metrics (set_response_body b s) = metrics s"
  "metrics (set_response_header h v s) = metrics s"
  "metrics (set_response_unauthorized env msg s) = metrics s"
  "metrics (set_response_unauthorized_jwt msg s) = metrics s"
  "metrics (log_call c s) = metrics s"
  "metrics (update_history env s) = metrics s"
  by (simp_all add: ctx_defs update_history_def)

lemma accounted_check_identity:
  "fst (check_identity env e cid s) = Some out \<Longrightarrow>
     accounted e (metrics s) out (snd (check_identity env e cid s))"
  "fst (check_identity env e cid s) = None \<Longrightarrow>
     metrics (snd (check_identity env e cid s)) = metrics s"
  by (auto simp add: check_identity_def Let_def split_beta intro!: accounted_exit split: if_splits)

lemma accounted_check_signature_required:
  "fst (check_signature_required env e sr s) = Some out \<Longrightarrow>
     accounted e (metrics s) out (snd (check_signature_required env e sr s))"
  "fst (check_signature_required env e sr s) = None \<Longrightarrow>
     metrics (snd (check_signature_required env e sr s)) = metrics s"
  by (auto simp add: check_signature_required_def split_beta intro!: accounted_exit split: if_splits)

lemma metrics_verify [simp]:
  "metrics (snd (verify_client_signature env cert cid sr s)) = metrics s"
  by (simp add: verify_client_signature_def log_call_def Let_def split: option.splits)

lemma accounted_check_signature:
  "fst (check_signature env e sr cid ip s) = Inl out \<Longrightarrow>
     accounted e (metrics s) out (snd (check_signature env e sr cid ip s))"
  "fst (check_signature env e sr cid ip s) = Inr b \<Longrightarrow>
     metrics (snd (check_signature env e sr cid ip s)) = metrics s"
  by (auto simp add: check_signature_def Let_def split_beta intro!: accounted_exit
        split: if_splits option.splits)

lemma accounted_check_jwt:
  "fst (check_jwt env e s) = Some out \<Longrightarrow>
     accounted e (metrics s) out (snd (check_jwt env e s))"
  "fst (check_jwt env e s) = None \<Longrightarrow> metrics (snd (check_jwt env e s)) = metrics s"
  by (auto simp add: check_jwt_def Let_def split_beta intro!: accounted_exit
        split: if_splits option.splits sum.splits)

lemma accounted_could_not_forward:
  "accounted e (metrics s) (fst (could_not_forward e s)) (snd (could_not_forward e s))"
  unfolding could_not_forward_def by (rule accounted_exit) simp

lemma accounted_forward:
  "accounted e (metrics s) (fst (forward_or_redirect_json env e cid s))
     (snd (forward_or_redirect_json env e cid s))"
proof (cases "cmd_forwarder s \<and> original_caller (session (ctx s)) = None")
  case True
  have l: "accounted e (metrics s) (fst (could_not_forward e (log_call c (s\<lparr>world := w\<rparr>))))
             (snd (could_not_forward e (log_call c (s\<lparr>world := w\<rparr>))))" for c w
    using accounted_could_not_forward [of e "log_call c (s\<lparr>world := w\<rparr>)"]
    by (simp add: log_call_def)
  show ?thesis
    using True accounted_could_not_forward [of e s] l
    by (simp add: forward_or_redirect_json_def Let_def split_beta log_call_def
          split: option.splits)
next
  case False
  have "\<exists>t. forward_or_redirect_json env e cid s = serialise_response (update_metrics e t) \<and>
          metrics t = metrics s"
    using False
    by (auto simp add: forward_or_redirect_json_def Let_def split: option.splits)
  then show ?thesis
    using accounted_exit by metis
qed

lemma dispatch_cases:
  "dispatch env e cid ip s = (None, s) \<or>
   dispatch env e cid ip s = (Some (Threw ''null pointer''), s) \<or>
   dispatch env e cid ip s = forward_request env e cid s"
  by (simp add: dispatch_def split: option.splits ForwardingRequired.splits)

lemma accounted_forward_request:
  "\<exists>out. fst (forward_request env e cid s) = Some out \<and>
      accounted e (metrics s) out (snd (forward_request env e cid s))"
  using accounted_forward
          [of e "s\<lparr>ctx := (ctx s)\<lparr>session := (session (ctx s))\<lparr>is_forwarding := True\<rparr>\<rparr>\<rparr>" env cid]
  by (simp add: forward_request_def split_beta)

lemma accounted_dispatch:
  "fst (dispatch env e cid ip s) = Some out \<Longrightarrow>
     accounted e (metrics s) out (snd (dispatch env e cid ip s))"
  "fst (dispatch env e cid ip s) = None \<Longrightarrow> metrics (snd (dispatch env e cid ip s)) = metrics s"
  using dispatch_cases [of env e cid ip s] accounted_forward_request [of env e cid s]
  by auto

lemma metrics_run_endpoint:
  "metrics (snd (run_endpoint env pre e sr cid rec s)) = metrics s"
  by (auto simp add: run_endpoint_def record_client_signature_def log_call_def Let_def
        split: option.splits prod.splits if_splits)

lemma accounted_handle_exception:
  "fst (handle_exception env e ex s) = Done out \<Longrightarrow>
     accounted e (metrics s) out (snd (handle_exception env e ex s))"
  "fst (handle_exception env e ex s) = Retry \<Longrightarrow>
     metrics (snd (handle_exception env e ex s)) = metrics s"
  by (cases ex; auto simp add: handle_exception_def split_beta log_call_def intro!: accounted_exit)+

lemma accounted_commit_ok:
  "accounted e (metrics s) (fst (commit_ok env e s)) (snd (commit_ok env e s))"
proof -
  have "\<exists>t. commit_ok env e s = serialise_response (update_metrics e t) \<and> metrics t = metrics s"
    by (auto simp add: commit_ok_def Let_def set_seqno_def set_view_def set_global_commit_def
          log_call_def split: option.splits)
  then show ?thesis
    using accounted_exit by metis
qed

lemma attempt_unfold:
  "attempt env pre e sr cid rec s =
     (let s1 = snd (run_endpoint env pre e sr cid rec s) in
      case fst (run_endpoint env pre e sr cid rec s) of
        Some ex \<Rightarrow> handle_exception env e ex s1
      | None \<Rightarrow>
          if \<not> should_apply_writes (ctx s1) then
            (Done (fst (serialise_response (update_metrics e s1))),
             snd (serialise_response (update_metrics e s1)))
          else
            (let s2 = log_call Commit (s1\<lparr>world := snd (tx_commit env (world s1))\<rparr>) in
             case fst (tx_commit env (world s1)) of
               Inl ex \<Rightarrow> handle_exception env e ex s2
             | Inr OK \<Rightarrow> (Done (fst (commit_ok env e s2)), snd (commit_ok env e s2))
             | Inr CONFLICT \<Rightarrow> (Retry, s2)
             | Inr NO_REPLICATE \<Rightarrow>
                 (Done (fst (serialise_response (update_metrics e
                     (set_response_body ''Transaction failed to replicate.''
                       (set_response_status 500 s2))))),
                  snd (serialise_response (update_metrics e
                     (set_response_body ''Transaction failed to replicate.''
                       (set_response_status 500 s2)))))))"
  by (simp add: attempt_def Let_def split_beta
        split: option.splits sum.splits CommitSuccess.splits prod.splits)

lemma accounted_attempt:
  "fst (attempt env pre e sr cid rec s) = Done out \<Longrightarrow>
     accounted e (metrics s) out (snd (attempt env pre e sr cid rec s))"
  "fst (attempt env pre e sr cid rec s) = Retry \<Longrightarrow>
     metrics (snd (attempt env pre e sr cid rec s)) = metrics s"
proof -
  define s1 where "s1 = snd (run_endpoint env pre e sr cid rec s)"
  define s2 where "s2 = log_call Commit (s1\<lparr>world := snd (tx_commit env (world s1))\<rparr>)"
  have m1: "metrics s1 = metrics s"
    by (simp add: s1_def metrics_run_endpoint)
  have m2: "metrics s2 = metrics s"
    using m1 by (simp add: s2_def log_call_def)
  note h1 = accounted_handle_exception [of env e _ s1, unfolded m1]
  note h2 = accounted_handle_exception [of env e _ s2, unfolded m2]
  note c = accounted_commit_ok [of e s2 env, unfolded m2]
  note x1 = accounted_exit [of s1 "metrics s" e, OF m1]
  have x2: "accounted e (metrics s)
      (fst (serialise_response (update_metrics e
         (set_response_body ''Transaction failed to replicate.'' (set_response_status 500 s2)))))
      (snd (serialise_response (update_metrics e
         (set_response_body ''Transaction failed to replicate.'' (set_response_status 500 s2)))))"
    by (rule accounted_exit) (simp add: m2)
  show "fst (attempt env pre e sr cid rec s) = Done out \<Longrightarrow>
     accounted e (metrics s) out (snd (attempt env pre e sr cid rec s))"
    using h1 h2 c x1 x2
    by (auto simp add: attempt_unfold Let_def s1_def [symmetric] s2_def [symmetric]
          split: option.splits sum.splits CommitSuccess.splits if_splits)
  show "fst (attempt env pre e sr cid rec s) = Retry \<Longrightarrow>
     metrics (snd (attempt env pre e sr cid rec s)) = metrics s"
    using h1 h2 m2
    by (auto simp add: attempt_unfold Let_def s1_def [symmetric] s2_def [symmetric]
          split: option.splits sum.splits CommitSuccess.splits if_splits)
qed

lemma accounted_retry_loop:
  "accounted e (metrics s) (fst (retry_loop env pre e sr cid rec n s))
     (snd (snd (retry_loop env pre e sr cid rec n s))) \<or>
   (\<forall>j. j < max_attempts - n \<longrightarrow>
      conflicts env pre e sr cid rec (after_attempts env pre e sr cid rec j s))"
proof (induction env pre e sr cid rec n s rule: retry_loop.induct)
  case (1 env pre e sr cid rec n s)
  show ?case
  proof (cases "n < max_attempts")
    case False
    then show ?thesis by simp
  next
    case True
    show ?thesis
    proof (cases "fst (attempt env pre e sr cid rec s)")
      case (Done out)
      then show ?thesis
        using True accounted_attempt(1) [OF Done] by (simp add: retry_loop_Done)
    next
      case Retry
      define s1 where "s1 = snd (attempt env pre e sr cid rec s)"
      have m: "metrics s1 = metrics s"
        using accounted_attempt(2) [OF Retry] by (simp add: s1_def)
      have c0: "conflicts env pre e sr cid rec s"
        using Retry by (simp add: attempt_Retry_iff)
      have step: "retry_loop env pre e sr cid rec n s = retry_loop env pre e sr cid rec (Suc n) s1"
        using True Retry by (simp add: retry_loop_Retry s1_def)
      from "1.IH" [OF True _ Retry, of s1] have
        "accounted e (metrics s1) (fst (retry_loop env pre e sr cid rec (Suc n) s1))
           (snd (snd (retry_loop env pre e sr cid rec (Suc n) s1))) \<or>
         (\<forall>j. j < max_attempts - Suc n \<longrightarrow>
            conflicts env pre e sr cid rec (after_attempts env pre e sr cid rec j s1))"
        by (simp add: s1_def)
      then show ?thesis
      proof
        assume "accounted e (metrics s1) (fst (retry_loop env pre e sr cid rec (Suc n) s1))
           (snd (snd (retry_loop env pre e sr cid rec (Suc n) s1)))"
        then show ?thesis by (simp add: step m)
      next
        assume rest: "\<forall>j. j < max_attempts - Suc n \<longrightarrow>
            conflicts env pre e sr cid rec (after_attempts env pre e sr cid rec j s1)"
        have "conflicts env pre e sr cid rec (after_attempts env pre e sr cid rec j s)"
          if "j < max_attempts - n" for j
        proof (cases j)
          case 0
          with c0 show ?thesis by simp
        next
          case (Suc j')
          with that rest show ?thesis by (simp add: s1_def)
        qed
        then show ?thesis by blast
      qed
    qed
  qed
qed

lemma accounted_execute:
  "accounted e (metrics s) (fst (execute env pre e sr cid rec s))
     (snd (execute env pre e sr cid rec s)) \<or>
   (\<forall>j. j < max_attempts \<longrightarrow>
      conflicts env pre e sr cid rec
        (after_attempts env pre e sr cid rec j (s\<lparr>tx_count := tx_count s + 1\<rparr>)))"
  using accounted_retry_loop [of e "s\<lparr>tx_count := tx_count s + 1\<rparr>" env pre sr cid rec 0]
  by (simp add: execute_def split_beta)

lemma exhausted_metrics:
  "exhausted env pre e sr cid rec s r \<Longrightarrow>
   metrics (snd r) = metrics s \<and>
   (\<exists>resp. fst r = Returned (Some resp) \<and> r_status resp = 409)"
proof -
  assume x: "exhausted env pre e sr cid rec s r"
  then have "metrics (after_attempts env pre e sr cid rec max_attempts s) = metrics s"
    by (intro after_attempts_metrics) (simp add: exhausted_def)
  with x show ?thesis
    by (simp add: exhausted_def attempts_exhausted_def ctx_defs)
qed

lemma accounted_execute_exhausted:
  "accounted e (metrics s) (fst (execute env pre e sr cid rec s))
     (snd (execute env pre e sr cid rec s)) \<or>
   exhausted env pre e sr cid rec (s\<lparr>tx_count := tx_count s + 1\<rparr>)
     (execute env pre e sr cid rec s)"
proof -
  define s0 where "s0 = s\<lparr>tx_count := tx_count s + 1\<rparr>"
  from accounted_execute [of e s env pre sr cid rec] show ?thesis
  proof
    assume "accounted e (metrics s) (fst (execute env pre e sr cid rec s))
     (snd (execute env pre e sr cid rec s))"
    then show ?thesis by simp
  next
    assume all: "\<forall>j. j < max_attempts \<longrightarrow>
      conflicts env pre e sr cid rec
        (after_attempts env pre e sr cid rec j (s\<lparr>tx_count := tx_count s + 1\<rparr>))"
    then have "retry_loop env pre e sr cid rec 0 s0 =
        retry_loop env pre e sr cid rec (0 + max_attempts)
          (after_attempts env pre e sr cid rec max_attempts s0)"
      by (intro retry_loop_retries) (simp_all add: attempt_Retry_iff s0_def)
    moreover have "execute env pre e sr cid rec s =
        (fst (retry_loop env pre e sr cid rec 0 s0),
         snd (snd (retry_loop env pre e sr cid rec 0 s0)))"
      by (simp add: execute_def s0_def split_beta)
    ultimately have "execute env pre e sr cid rec s =
        attempts_exhausted (after_attempts env pre e sr cid rec max_attempts s0)"
      by (simp add: retry_loop_exhausted)
    with all show ?thesis
      by (simp add: exhausted_def s0_def)
  qed
qed

lemma accounted_authorise_and_execute:
  "accounted e (metrics s) (fst (authorise_and_execute env pre e sr cid s))
     (snd (authorise_and_execute env pre e sr cid s)) \<or>
   (\<exists>rec s0. metrics s0 = metrics s \<and>
      exhausted env pre e sr cid rec s0 (authorise_and_execute env pre e sr cid s))"
proof -
  define r1 where "r1 = check_identity env e cid s"
  define r2 where "r2 = check_signature_required env e sr (snd r1)"
  define r3 where "r3 = check_signature env e sr cid (frontend_is_primary (snd r1)) (snd r2)"
  define r4 where "r4 = check_jwt env e (snd r3)"
  define r5 where "r5 = dispatch env e cid (frontend_is_primary (snd r1)) (update_history env (snd r4))"
  note i1 = accounted_check_identity [of env e cid s, folded r1_def]
  note i2 = accounted_check_signature_required [of env e sr "snd r1", folded r2_def]
  note i3 = accounted_check_signature [of env e sr cid "frontend_is_primary (snd r1)" "snd r2",
      folded r3_def]
  note i4 = accounted_check_jwt [of env e "snd r3", folded r4_def]
  note i5 = accounted_dispatch [of env e cid "frontend_is_primary (snd r1)"
      "update_history env (snd r4)", folded r5_def]
  have a: "authorise_and_execute env pre e sr cid s =
      (case fst r1 of Some out \<Rightarrow> (out, snd r1)
       | None \<Rightarrow>
         (case fst r2 of Some out \<Rightarrow> (out, snd r2)
          | None \<Rightarrow>
            (case fst r3 of Inl out \<Rightarrow> (out, snd r3)
             | Inr rec \<Rightarrow>
               (case fst r4 of Some out \<Rightarrow> (out, snd r4)
                | None \<Rightarrow>
                  (case fst r5 of Some out \<Rightarrow> (out, snd r5)
                   | None \<Rightarrow> execute env pre e sr cid rec (snd r5))))))"
    unfolding authorise_and_execute_def Let_def r1_def r2_def r3_def r4_def r5_def
    by (auto split: prod.splits option.splits sum.splits)
  show ?thesis
  proof (cases "fst r1")
    case (Some out)
    then show ?thesis using i1(1) by (simp add: a)
  next
    case n1: None
    show ?thesis
    proof (cases "fst r2")
      case (Some out)
      then show ?thesis using n1 i1(2) i2(1) by (simp add: a)
    next
      case n2: None
      show ?thesis
      proof (cases "fst r3")
        case (Inl out)
        then show ?thesis using n1 n2 i1(2) i2(2) i3(1) by (simp add: a)
      next
        case (Inr rec)
        show ?thesis
        proof (cases "fst r4")
          case (Some out)
          then show ?thesis using n1 n2 Inr i1(2) i2(2) i3(2) i4(1) by (simp add: a)
        next
          case n4: None
          show ?thesis
          proof (cases "fst r5")
            case (Some out)
            then show ?thesis
              using n1 n2 Inr n4 i1(2) i2(2) i3(2) i4(2) i5(1) by (simp add: a)
          next
            case n5: None
            have m: "metrics (snd r5) = metrics s"
              using n1 n2 Inr n4 n5 i1(2) i2(2) i3(2) i4(2) i5(2) by simp
            have ae: "authorise_and_execute env pre e sr cid s =
                execute env pre e sr cid rec (snd r5)"
              using n1 n2 Inr n4 n5 by (simp add: a)
            have m0: "metrics ((snd r5)\<lparr>tx_count := tx_count (snd r5) + 1\<rparr>) = metrics s"
              using m by simp
            from accounted_execute_exhausted [of e "snd r5" env pre sr cid rec]
            show ?thesis
              unfolding ae m using m0 by blast
          qed
        qed
      qed
    qed
  qed
qed

lemma process_command_metrics:
  "(find_endpoint env (world s) (ctx s) = None \<longrightarrow>
      metrics (snd (process_command env pre caller_id s)) = metrics s) \<and>
   (\<forall>e. find_endpoint env (world s) (ctx s) = Some e \<longrightarrow>
      accounted e ((metrics s)(e := (metrics s e)\<lparr>calls := calls (metrics s e) + 1\<rparr>))
        (fst (process_command env pre caller_id s)) (snd (process_command env pre caller_id s)) \<or>
      (\<exists>cid rec s0.
         metrics s0 = (metrics s)(e := (metrics s e)\<lparr>calls := calls (metrics s e) + 1\<rparr>) \<and>
         exhausted env pre e (get_signed_request (ctx s)) cid rec s0
           (process_command env pre caller_id s)))"
proof (intro conjI impI allI)
  assume "find_endpoint env (world s) (ctx s) = None"
  then show "metrics (snd (process_command env pre caller_id s)) = metrics s"
    by (simp add: process_command_def endpoint_not_found_def Let_def log_call_def
          serialise_response_def)
next
  fix e
  assume f: "find_endpoint env (world s) (ctx s) = Some e"
  define s1 where "s1 = (log_call FindEndpoint s)
      \<lparr>metrics := (metrics s)(e := (metrics s e)\<lparr>calls := calls (metrics s e) + 1\<rparr>)\<rparr>"
  define r where "r = signed_request_caller_id env (get_signed_request (ctx s)) caller_id s1"
  have m: "metrics (snd r) = (metrics s)(e := (metrics s e)\<lparr>calls := calls (metrics s e) + 1\<rparr>)"
    by (simp add: r_def s1_def signed_request_caller_id_def Let_def log_call_def
          split: option.splits)
  have pc: "process_command env pre caller_id s =
      authorise_and_execute env pre e (get_signed_request (ctx s)) (fst r) (snd r)"
    using f by (simp add: process_command_def Let_def log_call_def r_def s1_def split_beta)
  show "accounted e ((metrics s)(e := (metrics s e)\<lparr>calls := calls (metrics s e) + 1\<rparr>))
        (fst (process_command env pre caller_id s)) (snd (process_command env pre caller_id s)) \<or>
      (\<exists>cid rec s0.
         metrics s0 = (metrics s)(e := (metrics s e)\<lparr>calls := calls (metrics s e) + 1\<rparr>) \<and>
         exhausted env pre e (get_signed_request (ctx s)) cid rec s0
           (process_command env pre caller_id s))"
    using accounted_authorise_and_execute
            [of e "snd r" env pre "get_signed_request (ctx s)" "fst r"]
    unfolding pc m by blast
qed

text \<open>
  C8. The claim says that \<open>errors\<close> is incremented for every response of class 4xx,
  the exit taken when the attempts are used up included. On that exit (lines 564-567)
  the response is 409 and \<open>update_metrics\<close> is not called, so \<open>errors\<close> is not
  incremented. Here every commit answers \<open>CONFLICT\<close>: the endpoint was found (\<open>calls\<close>
  is 1), the status is 409, and \<open>errors\<close> is still 0. On every other exit the
  counters are as the claim says (\<open>process_command_metrics\<close> above).
\<close>

theorem retry_exhaustion_skips_metrics:
  "\<exists>r s'. process_command always_conflict None 1 test_system = (Returned (Some r), s') \<and>
     r_status r = 409 \<and>
     calls (metrics s' test_endpoint) = 1 \<and>
     errors (metrics s' test_endpoint) = 0 \<and>
     failures (metrics s' test_endpoint) = 0"
proof -
  define s0 where "s0 = update_history always_conflict
               ((log_call FindEndpoint test_system)
                  \<lparr>metrics := (metrics test_system)(test_endpoint :=
                      (metrics test_system test_endpoint)\<lparr>calls := calls (metrics test_system test_endpoint) + 1\<rparr>)\<rparr>)"
  have "process_command always_conflict None 1 test_system =
        execute always_conflict None test_endpoint None 1 False s0"
    unfolding s0_def
    by (rule process_command_execute_path) (simp_all add: test_defs)
  moreover obtain r s' where
    "retry_loop always_conflict None test_endpoint None 1 False 0 (s0\<lparr>tx_count := tx_count s0 + 1\<rparr>)
       = (Returned (Some r), 30, s')" "r_status r = 409" "metrics s' = metrics (s0\<lparr>tx_count := tx_count s0 + 1\<rparr>)"
    using retry_loop_all_conflicts [of always_conflict None test_endpoint None 1 False
            "s0\<lparr>tx_count := tx_count s0 + 1\<rparr>"]
    by (auto simp add: always_conflict_conflicts)
  moreover have "metrics s0 test_endpoint = \<lparr>calls = 1, errors = 0, failures = 0\<rparr>"
    by (simp add: s0_def update_history_def log_call_def test_defs)
  ultimately show ?thesis
    by (simp add: execute_def)
qed

end
